theory Spec2Isabelle
  imports Main "HOL-Library.Word" "HOL-Library.Log_Nat"
begin

section \<open>The C++ value types used by GP2YDustSensor\<close>

subsection \<open>float: IEEE 754 binary32, round to nearest, ties to even\<close>

text \<open>
  The driver computes in \<^verbatim>\<open>float\<close>, which is IEEE 754 binary32 on its targets (AVR,
  ESP8266). Every operation is taken to round its exact result to the nearest float, ties
  to even, with no wider intermediate format. A value is a signed zero or a signed
  non-zero magnitude, an infinity, or a NaN. \<open>Finite sg m\<close> stands for
  \<open>(if sg then - m else m)\<close>: \<open>sg\<close> is the sign bit and \<open>m \<ge> 0\<close> the magnitude, an exact
  rational.
\<close>

datatype f32 = Finite bool rat | Infinity bool | NaN

text \<open>Nearest integer, ties to the even one.\<close>

definition rne :: "rat \<Rightarrow> int" where
  "rne x = (let f = \<lfloor>x\<rfloor>; d = x - of_int f
            in if d < 1 / 2 then f else if 1 / 2 < d then f + 1
               else if even f then f else f + 1)"

text \<open>\<open>ilog2 a\<close> is the \<open>e\<close> with \<open>2\<^sup>e \<le> a < 2\<^sup>e\<^sup>+\<^sup>1\<close>, for \<open>a > 0\<close>.\<close>

definition ilog2 :: "rat \<Rightarrow> int" where
  "ilog2 a = (case quotient_of a of (p, q) \<Rightarrow>
     let e0 = bitlen p - bitlen q in if 2 powi e0 \<le> a then e0 else e0 - 1)"

text \<open>
  Rounding a magnitude \<open>a \<ge> 0\<close> with sign \<open>sg\<close>: 24 significant bits, the exponent at
  least -126 (below that the spacing stays \<open>2\<^sup>-\<^sup>1\<^sup>4\<^sup>9\<close>: subnormals), and overflow to
  infinity from \<open>2\<^sup>1\<^sup>2\<^sup>8\<close> on.
\<close>

definition f32_round :: "bool \<Rightarrow> rat \<Rightarrow> f32" where
  "f32_round sg a =
     (if a = 0 then Finite sg 0
      else let e = max (ilog2 a) (- 126);
               q = 2 powi (e - 23);
               m = of_int (rne (a / q)) * q
           in if 2 ^ 128 \<le> m then Infinity sg else Finite sg m)"

definition sval :: "bool \<Rightarrow> rat \<Rightarrow> rat" where
  "sval sg m = (if sg then - m else m)"

text \<open>Conversion of an integer (\<^verbatim>\<open>uint16_t\<close>, \<^verbatim>\<open>int16_t\<close> or an \<^verbatim>\<open>int\<close> literal) to float.\<close>

definition f32_of_int :: "int \<Rightarrow> f32" where
  "f32_of_int i = f32_round (i < 0) (of_int \<bar>i\<bar>)"

text \<open>
  A decimal literal such as \<^verbatim>\<open>0.9\<close> stored in a float field: the float nearest to it.
  (The six literals of the constructor give the same float when they are first rounded
  to a 64-bit \<^verbatim>\<open>double\<close>.)
\<close>

definition f32_lit :: "rat \<Rightarrow> f32" where
  "f32_lit r = f32_round (r < 0) \<bar>r\<bar>"

fun f32_neg :: "f32 \<Rightarrow> f32" where
  "f32_neg (Finite sg m) = Finite (\<not> sg) m"
| "f32_neg (Infinity sg) = Infinity (\<not> sg)"
| "f32_neg NaN = NaN"

fun f32_add :: "f32 \<Rightarrow> f32 \<Rightarrow> f32" where
  "f32_add (Finite sa a) (Finite sb b) =
     (let r = sval sa a + sval sb b
      in if r = 0 then Finite (sa \<and> sb) 0 else f32_round (r < 0) \<bar>r\<bar>)"
| "f32_add (Finite sa a) (Infinity sb) = Infinity sb"
| "f32_add (Infinity sa) (Finite sb b) = Infinity sa"
| "f32_add (Infinity sa) (Infinity sb) = (if sa = sb then Infinity sa else NaN)"
| "f32_add NaN y = NaN"
| "f32_add x NaN = NaN"

definition f32_sub :: "f32 \<Rightarrow> f32 \<Rightarrow> f32" where
  "f32_sub x y = f32_add x (f32_neg y)"

fun f32_mul :: "f32 \<Rightarrow> f32 \<Rightarrow> f32" where
  "f32_mul (Finite sa a) (Finite sb b) = f32_round (sa \<noteq> sb) (a * b)"
| "f32_mul (Finite sa a) (Infinity sb) = (if a = 0 then NaN else Infinity (sa \<noteq> sb))"
| "f32_mul (Infinity sa) (Finite sb b) = (if b = 0 then NaN else Infinity (sa \<noteq> sb))"
| "f32_mul (Infinity sa) (Infinity sb) = Infinity (sa \<noteq> sb)"
| "f32_mul NaN y = NaN"
| "f32_mul x NaN = NaN"

fun f32_div :: "f32 \<Rightarrow> f32 \<Rightarrow> f32" where
  "f32_div (Finite sa a) (Finite sb b) =
     (if b = 0 then (if a = 0 then NaN else Infinity (sa \<noteq> sb))
      else f32_round (sa \<noteq> sb) (a / b))"
| "f32_div (Finite sa a) (Infinity sb) = Finite (sa \<noteq> sb) 0"
| "f32_div (Infinity sa) (Finite sb b) = Infinity (sa \<noteq> sb)"
| "f32_div (Infinity sa) (Infinity sb) = NaN"
| "f32_div NaN y = NaN"
| "f32_div x NaN = NaN"

text \<open>Comparisons: every comparison with a NaN is false, and \<open>-0 = +0\<close>.\<close>

fun f32_lt :: "f32 \<Rightarrow> f32 \<Rightarrow> bool" where
  "f32_lt (Finite sa a) (Finite sb b) = (sval sa a < sval sb b)"
| "f32_lt (Finite sa a) (Infinity sb) = (\<not> sb)"
| "f32_lt (Infinity sa) (Finite sb b) = sa"
| "f32_lt (Infinity sa) (Infinity sb) = (sa \<and> \<not> sb)"
| "f32_lt NaN y = False"
| "f32_lt x NaN = False"

fun f32_le :: "f32 \<Rightarrow> f32 \<Rightarrow> bool" where
  "f32_le (Finite sa a) (Finite sb b) = (sval sa a \<le> sval sb b)"
| "f32_le (Finite sa a) (Infinity sb) = (\<not> sb)"
| "f32_le (Infinity sa) (Finite sb b) = sa"
| "f32_le (Infinity sa) (Infinity sb) = (sa \<or> \<not> sb)"
| "f32_le NaN y = False"
| "f32_le x NaN = False"

definition f32_ge :: "f32 \<Rightarrow> f32 \<Rightarrow> bool" where
  "f32_ge x y = f32_le y x"

fun is_finite :: "f32 \<Rightarrow> bool" where
  "is_finite (Finite sg m) = True"
| "is_finite (Infinity sg) = False"
| "is_finite NaN = False"

subsection \<open>Undefined behaviour as error values\<close>

datatype error =
    DivisionByZero          \<comment> \<open>integer division by zero\<close>
  | FloatToIntUndefined     \<comment> \<open>float to integer conversion whose truncated value does not fit\<close>
  | IndexOutOfBounds        \<comment> \<open>access outside the running average buffer\<close>

text \<open>
  Conversion of a float to \<^verbatim>\<open>uint16_t\<close>, as in \<^verbatim>\<open>uint16_t dustDensity = <float>;\<close>.
  The fractional part is discarded (truncation toward zero); the behaviour is undefined
  when the truncated value is not in 0..65535, hence also for infinities and NaN.
\<close>

fun f32_to_u16 :: "f32 \<Rightarrow> error + 16 word" where
  "f32_to_u16 (Finite sg m) =
     (let t = (if sg then - \<lfloor>m\<rfloor> else \<lfloor>m\<rfloor>)
      in if 0 \<le> t \<and> t \<le> 65535 then Inr (word_of_int t) else Inl FloatToIntUndefined)"
| "f32_to_u16 (Infinity sg) = Inl FloatToIntUndefined"
| "f32_to_u16 NaN = Inl FloatToIntUndefined"

section \<open>The Arduino primitives the driver calls\<close>

text \<open>
  \<^verbatim>\<open>digitalWrite\<close>, \<^verbatim>\<open>delayMicroseconds\<close> and \<^verbatim>\<open>analogRead\<close> belong to the Arduino
  core. The board is a state: the level of every digital pin (\<open>True\<close> is \<^verbatim>\<open>HIGH\<close>), the
  microseconds spent in \<^verbatim>\<open>delayMicroseconds\<close> so far, the number of conversions
  \<^verbatim>\<open>analogRead\<close> has made, and what the converter delivers: \<open>adc_input hw k\<close> is the
  result of conversion number \<open>k\<close>, as the \<^verbatim>\<open>uint16_t\<close> the driver stores it in.
\<close>

record hardware =
  pin_level :: "8 word \<Rightarrow> bool"
  elapsed_us :: nat
  adc_reads :: nat
  adc_input :: "nat \<Rightarrow> 16 word"

definition digitalWrite :: "8 word \<Rightarrow> bool \<Rightarrow> hardware \<Rightarrow> hardware" where
  "digitalWrite pin level hw = hw\<lparr>pin_level := (pin_level hw)(pin := level)\<rparr>"

definition delayMicroseconds :: "nat \<Rightarrow> hardware \<Rightarrow> hardware" where
  "delayMicroseconds us hw = hw\<lparr>elapsed_us := elapsed_us hw + us\<rparr>"

definition analogRead :: "8 word \<Rightarrow> hardware \<Rightarrow> 16 word \<times> hardware" where
  "analogRead pin hw = (adc_input hw (adc_reads hw), hw\<lparr>adc_reads := adc_reads hw + 1\<rparr>)"

section \<open>The class GP2YDustSensor\<close>

datatype GP2YDustSensorType = GP2Y1010AU0F | GP2Y1014AU0F

text \<open>
  The fields of the class that the code initialises and uses (\<^verbatim>\<open>maxAdc\<close> and
  \<^verbatim>\<open>runningAverageCounter\<close> are declared and never touched). The two \<^verbatim>\<open>int\<close> fields
  hold values between 0 and 65535 and are integers here: that is the code on a target
  with a 32-bit \<^verbatim>\<open>int\<close>, and on a target with a 16-bit \<^verbatim>\<open>int\<close> for capacities up to
  32767. An \<^verbatim>\<open>int16_t\<close> slot of the buffer is a 16-bit word read through \<open>sint\<close>;
  storing a \<^verbatim>\<open>uint16_t\<close> into it keeps the sixteen bits (the value modulo \<open>2\<^sup>1\<^sup>6\<close>).
  Without a capacity the constructor allocates nothing, and the buffer is the empty list.
\<close>

record GP2YDustSensor =
  type :: GP2YDustSensorType
  ledOutputPin :: "8 word"
  analogReadPin :: "8 word"
  vRef :: f32
  zeroDustVoltage :: f32
  minDustVoltage :: f32
  minZeroDustVoltage :: f32
  maxZeroDustVoltage :: f32
  typZeroDustVoltage :: f32
  currentBaselineCandidate :: f32
  hasBaselineCandidate :: bool
  readCount :: "16 word"
  calibrationFactor :: f32
  sensitivity :: f32
  runningAverageBuffer :: "16 word list"
  runningAverageCount :: int
  nextRunningAverageCounter :: int

definition BASELINE_CANDIDATE_MIN_READINGS :: "8 word" where
  "BASELINE_CANDIDATE_MIN_READINGS = 10"

text \<open>The constructor: the sensor type selects the zero dust voltages of the datasheet.\<close>

definition new_GP2YDustSensor ::
  "GP2YDustSensorType \<Rightarrow> 8 word \<Rightarrow> 8 word \<Rightarrow> 16 word \<Rightarrow> f32 \<Rightarrow> GP2YDustSensor" where
  "new_GP2YDustSensor ty ledPin analogPin avgCount voltageReference =
     (let minZ = (case ty of GP2Y1010AU0F \<Rightarrow> f32_of_int 0 | GP2Y1014AU0F \<Rightarrow> f32_lit (1 / 10));
          typZ = (case ty of GP2Y1010AU0F \<Rightarrow> f32_lit (9 / 10) | GP2Y1014AU0F \<Rightarrow> f32_lit (6 / 10));
          maxZ = (case ty of GP2Y1010AU0F \<Rightarrow> f32_lit (15 / 10) | GP2Y1014AU0F \<Rightarrow> f32_lit (11 / 10))
      in \<lparr> type = ty,
           ledOutputPin = ledPin,
           analogReadPin = analogPin,
           vRef = voltageReference,
           zeroDustVoltage = typZ,
           minDustVoltage = typZ,
           minZeroDustVoltage = minZ,
           maxZeroDustVoltage = maxZ,
           typZeroDustVoltage = typZ,
           currentBaselineCandidate = typZ,
           hasBaselineCandidate = False,
           readCount = 0,
           calibrationFactor = f32_of_int 1,
           sensitivity = f32_lit (5 / 10),
           runningAverageBuffer = replicate (unat avgCount) (- 1),
           runningAverageCount = uint avgCount,
           nextRunningAverageCounter = 0 \<rparr>)"

definition setBaseline :: "f32 \<Rightarrow> GP2YDustSensor \<Rightarrow> GP2YDustSensor" where
  "setBaseline v s = s\<lparr>zeroDustVoltage := v\<rparr>"

definition getBaseline :: "GP2YDustSensor \<Rightarrow> f32" where
  "getBaseline s = zeroDustVoltage s"

text \<open>\<^verbatim>\<open>getBaselineCandidate\<close> returns a float and may change the object.\<close>

definition getBaselineCandidate :: "GP2YDustSensor \<Rightarrow> f32 \<times> GP2YDustSensor" where
  "getBaselineCandidate s =
     (if \<not> hasBaselineCandidate s then (currentBaselineCandidate s, s)
      else let candidate = minDustVoltage s;
               s1 = s\<lparr>minDustVoltage := maxZeroDustVoltage s\<rparr>;
               s2 = s1\<lparr>currentBaselineCandidate := minDustVoltage s1\<rparr>;
               s3 = s2\<lparr>readCount := 0\<rparr>;
               s4 = s3\<lparr>hasBaselineCandidate := False\<rparr>
           in (candidate, s4))"

definition setSensitivity :: "f32 \<Rightarrow> GP2YDustSensor \<Rightarrow> GP2YDustSensor" where
  "setSensitivity v s = s\<lparr>sensitivity := v\<rparr>"

definition getSensitivity :: "GP2YDustSensor \<Rightarrow> f32" where
  "getSensitivity s = sensitivity s"

definition setCalibrationFactor :: "f32 \<Rightarrow> GP2YDustSensor \<Rightarrow> GP2YDustSensor" where
  "setCalibrationFactor slope s = s\<lparr>calibrationFactor := slope\<rparr>"

text \<open>One reading: LED on (pin \<^verbatim>\<open>LOW\<close>), 280 microseconds, one conversion, LED off.\<close>

definition readDustRawOnce :: "GP2YDustSensor \<Rightarrow> hardware \<Rightarrow> 16 word \<times> hardware" where
  "readDustRawOnce s hw =
     (let hw1 = digitalWrite (ledOutputPin s) False hw;
          hw2 = delayMicroseconds 280 hw1;
          (VoRaw, hw3) = analogRead (analogReadPin s) hw2;
          hw4 = digitalWrite (ledOutputPin s) True hw3
      in (VoRaw, hw4))"

text \<open>
  \<^verbatim>\<open>updateRunningAverage\<close>: the write into the buffer is undefined outside the
  allocation, so the model reports it; the counter then advances and wraps at the capacity.
\<close>

definition updateRunningAverage :: "16 word \<Rightarrow> GP2YDustSensor \<Rightarrow> error + GP2YDustSensor" where
  "updateRunningAverage v s =
     (let i = nextRunningAverageCounter s
      in if i < 0 \<or> int (length (runningAverageBuffer s)) \<le> i then Inl IndexOutOfBounds
         else let s1 = s\<lparr>runningAverageBuffer := (runningAverageBuffer s)[nat i := v]\<rparr>;
                  s2 = s1\<lparr>nextRunningAverageCounter := nextRunningAverageCounter s1 + 1\<rparr>
              in Inr (if runningAverageCount s2 \<le> nextRunningAverageCounter s2
                      then s2\<lparr>nextRunningAverageCounter := 0\<rparr> else s2))"

text \<open>
  The sampling loop of \<^verbatim>\<open>getDustDensity\<close>:
  \<^verbatim>\<open>for (uint8_t i = 0; i < numSamples; i++) { total += readDustRawOnce(); delayMicroseconds(9620); }\<close>
  with \<^verbatim>\<open>uint32_t total\<close> and \<^verbatim>\<open>uint16_t numSamples\<close>. The counter is eight bits
  wide and \<open>i + 1\<close> wraps; the comparison is made on the promoted values. The loop need not
  end, so it is a partial function: \<open>None\<close> is a loop that never exits.
\<close>

partial_function (option) getDustDensity_loop ::
  "GP2YDustSensor \<Rightarrow> 16 word \<Rightarrow> 8 word \<Rightarrow> 32 word \<Rightarrow> hardware \<Rightarrow> (32 word \<times> hardware) option" where
  "getDustDensity_loop s numSamples i tot hw =
     (if uint i < uint numSamples
      then (case readDustRawOnce s hw of (VoRaw, hw1) \<Rightarrow>
              getDustDensity_loop s numSamples (i + 1) (tot + ucast VoRaw)
                (delayMicroseconds 9620 hw1))
      else Some (tot, hw))"

text \<open>The bookkeeping at the end of \<^verbatim>\<open>getDustDensity\<close>.\<close>

definition countReading :: "GP2YDustSensor \<Rightarrow> GP2YDustSensor" where
  "countReading s =
     (if \<not> hasBaselineCandidate s
      then let s1 = s\<lparr>readCount := readCount s + 1\<rparr>
           in if uint BASELINE_CANDIDATE_MIN_READINGS < uint (readCount s1)
              then s1\<lparr>hasBaselineCandidate := True\<rparr> else s1
      else s)"

text \<open>\<^verbatim>\<open>float scaledVoltage = avgRaw * (this->vRef / 1024) * calibrationFactor;\<close>\<close>

definition scaledVoltage :: "GP2YDustSensor \<Rightarrow> 16 word \<Rightarrow> f32" where
  "scaledVoltage s avgRaw =
     f32_mul (f32_mul (f32_of_int (uint avgRaw)) (f32_div (vRef s) (f32_of_int 1024)))
       (calibrationFactor s)"

text \<open>The baseline tracking step: \<^verbatim>\<open>if (scaledVoltage < minDustVoltage && ...)\<close>.\<close>

definition trackMinimum :: "f32 \<Rightarrow> GP2YDustSensor \<Rightarrow> GP2YDustSensor" where
  "trackMinimum v s =
     (if f32_lt v (minDustVoltage s) \<and> f32_ge v (minZeroDustVoltage s)
         \<and> f32_le v (maxZeroDustVoltage s)
      then s\<lparr>minDustVoltage := v\<rparr> else s)"

text \<open>The density of a scaled voltage, converted by the assignment to \<^verbatim>\<open>uint16_t dustDensity\<close>.\<close>

definition dustDensityOf :: "GP2YDustSensor \<Rightarrow> f32 \<Rightarrow> error + 16 word" where
  "dustDensityOf s v =
     (if f32_lt v (zeroDustVoltage s) then Inr 0
      else f32_to_u16
             (f32_mul (f32_div (f32_sub v (zeroDustVoltage s)) (sensitivity s)) (f32_of_int 100)))"

text \<open>
  \<^verbatim>\<open>getDustDensity\<close> after its loop, from \<^verbatim>\<open>avgRaw = total / numSamples\<close> on. The
  quotient of two unsigned integers is undefined for a zero divisor.
\<close>

definition getDustDensity_rest ::
  "16 word \<Rightarrow> 32 word \<Rightarrow> GP2YDustSensor \<Rightarrow> error + 16 word \<times> GP2YDustSensor" where
  "getDustDensity_rest numSamples tot s =
     (if numSamples = 0 then Inl DivisionByZero
      else let avgRaw = (ucast (tot div ucast numSamples) :: 16 word);
               v = scaledVoltage s avgRaw;
               s1 = trackMinimum v s
           in case dustDensityOf s1 v of
                Inl e \<Rightarrow> Inl e
              | Inr dustDensity \<Rightarrow>
                  (case (if runningAverageCount s1 \<noteq> 0
                         then updateRunningAverage dustDensity s1 else Inr s1) of
                     Inl e \<Rightarrow> Inl e
                   | Inr s2 \<Rightarrow> Inr (dustDensity, countReading s2)))"

text \<open>
  \<^verbatim>\<open>getDustDensity\<close>: \<open>None\<close> when the call never returns, \<open>Some (Inl e)\<close> when it
  runs into undefined behaviour, \<open>Some (Inr (density, object, board))\<close> otherwise.
\<close>

definition getDustDensity ::
  "16 word \<Rightarrow> GP2YDustSensor \<Rightarrow> hardware
     \<Rightarrow> (error + 16 word \<times> GP2YDustSensor \<times> hardware) option" where
  "getDustDensity numSamples s hw =
     (case getDustDensity_loop s numSamples 0 0 hw of
        None \<Rightarrow> None
      | Some (tot, hw') \<Rightarrow>
          Some (case getDustDensity_rest numSamples tot s of
                  Inl e \<Rightarrow> Inl e
                | Inr (dustDensity, s') \<Rightarrow> Inr (dustDensity, s', hw')))"

text \<open>
  \<^verbatim>\<open>getRunningAverage\<close>. The loop adds every slot that is not -1 into a float and counts
  it in \<^verbatim>\<open>uint16_t sampleCount\<close>.
\<close>

definition averageStep :: "f32 \<times> 16 word \<Rightarrow> 16 word \<Rightarrow> f32 \<times> 16 word" where
  "averageStep acc slot =
     (case acc of (runningAverage, sampleCount) \<Rightarrow>
        if sint slot \<noteq> - 1
        then (f32_add runningAverage (f32_of_int (sint slot)), sampleCount + 1)
        else (runningAverage, sampleCount))"

text \<open>
  \<^verbatim>\<open>round\<close> comes from the Arduino core (a macro yielding \<^verbatim>\<open>long\<close> in some cores, the
  C library function in others), not from this repository, so the model takes it as a
  parameter: \<open>round_u16 x\<close> is \<^verbatim>\<open>round(x)\<close> converted to the return type \<^verbatim>\<open>uint16_t\<close>.
\<close>

definition getRunningAverage ::
  "(f32 \<Rightarrow> error + 16 word) \<Rightarrow> GP2YDustSensor \<Rightarrow> error + 16 word \<times> GP2YDustSensor" where
  "getRunningAverage round_u16 s =
     (if runningAverageCount s = 0 then Inr (- 1, s)
      else if int (length (runningAverageBuffer s)) < runningAverageCount s
      then Inl IndexOutOfBounds
      else case foldl averageStep (f32_of_int 0, 0)
                  (take (nat (runningAverageCount s)) (runningAverageBuffer s)) of
             (runningAverage, sampleCount) \<Rightarrow>
               if sampleCount = 0 then Inr (0, s)
               else (case round_u16 (f32_div runningAverage (f32_of_int (uint sampleCount))) of
                       Inl e \<Rightarrow> Inl e
                     | Inr r \<Rightarrow> Inr (r, s)))"

section \<open>Notions used to state the properties\<close>

text \<open>The next \<open>k\<close> conversion results of the board, in the order \<^verbatim>\<open>analogRead\<close> delivers them.\<close>

definition sampled :: "nat \<Rightarrow> hardware \<Rightarrow> 16 word list" where
  "sampled k hw = map (\<lambda>j. adc_input hw (adc_reads hw + j)) [0..<k]"

text \<open>
  The board after \<open>k\<close> rounds of the sampling loop: the LED pin is left \<^verbatim>\<open>HIGH\<close>, each round
  has waited 280 + 9620 microseconds and made one conversion.
\<close>

definition board_after :: "GP2YDustSensor \<Rightarrow> nat \<Rightarrow> hardware \<Rightarrow> hardware" where
  "board_after s k hw =
     (if k = 0 then hw
      else hw\<lparr>pin_level := (pin_level hw)(ledOutputPin s := True),
              elapsed_us := elapsed_us hw + 9900 * k,
              adc_reads := adc_reads hw + k\<rparr>)"

text \<open>
  The shape of the running average window that the constructor sets up and every member
  function keeps: the buffer has \<^verbatim>\<open>runningAverageCount\<close> slots, at most 65535 of
  them (the constructor takes a \<^verbatim>\<open>uint16_t\<close>), and the write position is inside it.
\<close>

definition window_ok :: "GP2YDustSensor \<Rightarrow> bool" where
  "window_ok s =
     (int (length (runningAverageBuffer s)) = runningAverageCount s
      \<and> runningAverageCount s \<le> 65535
      \<and> 0 \<le> nextRunningAverageCounter s
      \<and> (nextRunningAverageCounter s < runningAverageCount s \<or> runningAverageCount s = 0))"

text \<open>
  The objects a program can hold: \<open>reachable s0 s\<close> when \<open>s\<close> results from \<open>s0\<close> by
  calls of the public member functions that return (\<^verbatim>\<open>begin\<close>, \<^verbatim>\<open>getBaseline\<close> and
  \<^verbatim>\<open>getSensitivity\<close> do not write to the object).
\<close>

inductive reachable :: "GP2YDustSensor \<Rightarrow> GP2YDustSensor \<Rightarrow> bool" for s0 where
  reach_start: "reachable s0 s0"
| reach_setBaseline: "reachable s0 s \<Longrightarrow> reachable s0 (setBaseline v s)"
| reach_getBaselineCandidate: "reachable s0 s \<Longrightarrow> reachable s0 (snd (getBaselineCandidate s))"
| reach_setSensitivity: "reachable s0 s \<Longrightarrow> reachable s0 (setSensitivity v s)"
| reach_setCalibrationFactor: "reachable s0 s \<Longrightarrow> reachable s0 (setCalibrationFactor v s)"
| reach_getDustDensity:
    "reachable s0 s \<Longrightarrow> getDustDensity n s hw = Some (Inr (d, s', hw')) \<Longrightarrow> reachable s0 s'"
| reach_getRunningAverage:
    "reachable s0 s \<Longrightarrow> getRunningAverage r s = Inr (a, s') \<Longrightarrow> reachable s0 s'"

text \<open>The tracked minimum lies between the profile's bounds.\<close>

definition tracked_in_range :: "GP2YDustSensor \<Rightarrow> bool" where
  "tracked_in_range s =
     (f32_le (minZeroDustVoltage s) (minDustVoltage s)
      \<and> f32_le (minDustVoltage s) (maxZeroDustVoltage s))"

text \<open>Pushing a sequence of densities into the window, first element first.\<close>

fun pushAll :: "16 word list \<Rightarrow> GP2YDustSensor \<Rightarrow> error + GP2YDustSensor" where
  "pushAll [] s = Inr s"
| "pushAll (v # vs) s =
     (case updateRunningAverage v s of Inl e \<Rightarrow> Inl e | Inr s' \<Rightarrow> pushAll vs s')"

text \<open>A board whose converter delivers the same value at every conversion.\<close>

definition steady_board :: "16 word \<Rightarrow> hardware" where
  "steady_board raw = \<lparr>pin_level = (\<lambda>pin. True), elapsed_us = 0, adc_reads = 0,
                        adc_input = (\<lambda>k. raw)\<rparr>"

text \<open>
  The candidate flag is set exactly when more than \<^verbatim>\<open>BASELINE_CANDIDATE_MIN_READINGS\<close>
  readings have been counted since the last reset, and the counter stops at 11.
\<close>

definition flag_counts :: "GP2YDustSensor \<Rightarrow> bool" where
  "flag_counts s = (hasBaselineCandidate s = (10 < uint (readCount s)) \<and> uint (readCount s) \<le> 11)"

text \<open>The fields that only the constructor and the setters write.\<close>

definition same_settings :: "GP2YDustSensor \<Rightarrow> GP2YDustSensor \<Rightarrow> bool" where
  "same_settings s s' =
     (type s' = type s \<and> ledOutputPin s' = ledOutputPin s \<and> analogReadPin s' = analogReadPin s
      \<and> vRef s' = vRef s \<and> zeroDustVoltage s' = zeroDustVoltage s
      \<and> minZeroDustVoltage s' = minZeroDustVoltage s
      \<and> maxZeroDustVoltage s' = maxZeroDustVoltage s
      \<and> typZeroDustVoltage s' = typZeroDustVoltage s
      \<and> currentBaselineCandidate s' = currentBaselineCandidate s
      \<and> calibrationFactor s' = calibrationFactor s \<and> sensitivity s' = sensitivity s
      \<and> runningAverageCount s' = runningAverageCount s)"

text \<open>
  What a buffer contributes to the running average: the \<^verbatim>\<open>int16_t\<close> readings of its
  slots, those equal to -1 left out.
\<close>

definition contributions :: "16 word list \<Rightarrow> int list" where
  "contributions slots = filter (\<lambda>x. x \<noteq> - 1) (map sint slots)"

text \<open>
  The sum as \<^verbatim>\<open>getRunningAverage\<close> accumulates it: the contributions of the slots, added
  in float one after the other from the first slot on, starting from 0.
\<close>

definition float_sum :: "16 word list \<Rightarrow> f32" where
  "float_sum slots = foldl f32_add (f32_of_int 0) (map f32_of_int (contributions slots))"

text \<open>
  The slots of the ring in the order in which they will be overwritten, the slot at the
  write position first.
\<close>

definition window :: "GP2YDustSensor \<Rightarrow> 16 word list" where
  "window s = rotate (nat (nextRunningAverageCounter s)) (runningAverageBuffer s)"

section \<open>Facts about the float operations\<close>

lemma f32_round_zero [simp]: "f32_round sg 0 = Finite sg 0"
  by (simp add: f32_round_def)

lemma f32_of_int_consts:
  "f32_of_int 0 = Finite False 0"
  "f32_of_int 1 = Finite False 1"
  "f32_of_int 5 = Finite False 5"
  "f32_of_int 100 = Finite False 100"
  "f32_of_int 1024 = Finite False 1024"
  by (simp_all add: f32_of_int_def f32_round_def ilog2_def rne_def Let_def compute_bitlen)

lemma f32_lit_consts:
  "f32_lit (1 / 10) = Finite False (13421773 / 134217728)"
  "f32_lit (5 / 10) = Finite False (1 / 2)"
  "f32_lit (6 / 10) = Finite False (5033165 / 8388608)"
  "f32_lit (9 / 10) = Finite False (7549747 / 8388608)"
  "f32_lit (11 / 10) = Finite False (9227469 / 8388608)"
  "f32_lit (15 / 10) = Finite False (3 / 2)"
  by code_simp+

lemma f32_lit_consts_normal:
  "f32_lit (1 / 2) = Finite False (1 / 2)"
  "f32_lit (3 / 5) = Finite False (5033165 / 8388608)"
  "f32_lit (3 / 2) = Finite False (3 / 2)"
  by code_simp+

lemma f32_le_trans: "f32_le x y \<Longrightarrow> f32_le y z \<Longrightarrow> f32_le x z"
  by (cases x; cases y; cases z) auto

lemma f32_le_refl_right: "f32_le x y \<Longrightarrow> f32_le y y"
  by (cases x; cases y) auto

lemma f32_le_not_lt:
  "f32_le v z \<Longrightarrow> \<not> f32_lt v z \<Longrightarrow> is_finite v \<or> v \<noteq> z \<Longrightarrow>
     \<exists>sa a sb b. v = Finite sa a \<and> z = Finite sb b \<and> sval sa a = sval sb b"
  by (cases v; cases z) auto

lemma f32_sub_equal: "sval sa a = sval sb b \<Longrightarrow> \<exists>sg. f32_sub (Finite sa a) (Finite sb b) = Finite sg 0"
  by (auto simp: f32_sub_def sval_def Let_def split: if_splits)

lemma f32_div_zero_pos:
  "f32_lt (Finite False 0) y \<Longrightarrow> \<exists>sg'. f32_div (Finite sg 0) y = Finite sg' 0"
  by (cases y) (auto simp: sval_def split: if_splits)

text \<open>
  A non-negative integer up to \<open>2\<^sup>2\<^sup>4\<close> is a float, so rounding leaves it alone, and sums of
  such integers that stay below that bound are exact.
\<close>

lemma rne_of_int [simp]: "rne (of_int k) = k"
  by (simp add: rne_def Let_def)

lemma ilog2_of_int:
  assumes "0 < n"
  shows "ilog2 (of_int n) = bitlen n - 1"
proof -
  from bitlen_bounds [OF assms] have "2 ^ nat (bitlen n - 1) \<le> n" by simp
  then have "(of_int (2 ^ nat (bitlen n - 1)) :: rat) \<le> of_int n"
    by (simp only: of_int_le_iff)
  moreover have "0 \<le> bitlen n - 1" using assms bitlen_bounds [OF assms]
    by (smt (verit) bitlen_eq_zero_iff bitlen_nonneg)
  ultimately have "(2 :: rat) powi (bitlen n - 1) \<le> of_int n"
    by (simp add: power_int_def)
  moreover have "bitlen 1 = 1" by (simp add: compute_bitlen)
  ultimately show ?thesis
    by (simp add: ilog2_def quotient_of_rat_of_int Let_def)
qed

lemma f32_round_int:
  assumes "0 \<le> n" "n \<le> 2 ^ 24"
  shows "f32_round sg (of_int n) = Finite sg (of_int n)"
proof (cases "n = 0")
  case True
  then show ?thesis by simp
next
  case False
  with assms have pos: "0 < n" by simp
  define e where "e = bitlen n - 1"
  have e0: "0 \<le> e" using pos unfolding e_def
    by (smt (verit) bitlen_eq_zero_iff bitlen_nonneg)
  have lo: "2 ^ nat e \<le> n" using bitlen_bounds [OF pos] by (simp add: e_def)
  have "n < 2 ^ 25" using assms by simp
  then have "bitlen n \<le> 25"
    using bitlen_le_iff_power [of n 25] by simp
  then have e24: "e \<le> 24" by (simp add: e_def)
  have il: "max (ilog2 (of_int n)) (- 126) = e"
    using ilog2_of_int [OF pos] e0 by (simp add: e_def)
  have big: "\<not> (2 :: rat) ^ 128 \<le> of_int n"
  proof -
    have "(of_int n :: rat) \<le> of_int (2 ^ 24)" using assms by (simp only: of_int_le_iff)
    then show ?thesis by simp
  qed
  have m: "of_int (rne (of_int n / 2 powi (e - 23))) * 2 powi (e - 23) = (of_int n :: rat)"
  proof (cases "e \<le> 23")
    case True
    then have p: "(2 :: rat) powi (e - 23) = 1 / 2 ^ nat (23 - e)"
      by (simp add: power_int_def field_simps)
    have "of_int n / (2 :: rat) powi (e - 23) = of_int (n * 2 ^ nat (23 - e))"
      by (simp add: p)
    then have "rne (of_int n / 2 powi (e - 23)) = n * 2 ^ nat (23 - e)"
      by (simp only: rne_of_int)
    then show ?thesis by (simp add: p)
  next
    case False
    with e24 have e: "e = 24" by simp
    with lo assms have n: "n = 2 ^ 24" by simp
    have "of_int n / (2 :: rat) powi (e - 23) = of_int (2 ^ 23)"
      by (simp add: e n)
    then have "rne (of_int n / 2 powi (e - 23)) = 2 ^ 23"
      by (simp only: rne_of_int)
    then show ?thesis by (simp add: e n)
  qed
  show ?thesis
    using False big by (simp add: f32_round_def il Let_def m)
qed

lemma f32_of_int_exact:
  "\<bar>i\<bar> \<le> 2 ^ 24 \<Longrightarrow> f32_of_int i = Finite (i < 0) (of_int \<bar>i\<bar>)"
  using f32_round_int [of "\<bar>i\<bar>" "i < 0"] by (simp add: f32_of_int_def)

lemma f32_add_exact:
  assumes "0 \<le> a" "0 \<le> b" "a + b \<le> 2 ^ 24"
  shows "f32_add (Finite False (of_int a)) (Finite False (of_int b)) = Finite False (of_int (a + b))"
proof (cases "a + b = 0")
  case True
  with assms have "a = 0" "b = 0" by simp_all
  then show ?thesis by (simp add: sval_def)
next
  case False
  define r :: rat where "r = of_int (a + b)"
  have sum: "(of_int a :: rat) + of_int b = r" by (simp add: r_def)
  have "r \<noteq> 0" using False by (simp add: r_def del: of_int_add)
  moreover have "0 \<le> r" using assms by (simp add: r_def del: of_int_add)
  ultimately have "f32_add (Finite False (of_int a)) (Finite False (of_int b)) = f32_round False r"
    by (simp add: sval_def Let_def sum)
  also have "\<dots> = Finite False r"
    unfolding r_def using assms by (intro f32_round_int) simp_all
  finally show ?thesis by (simp only: r_def)
qed

lemma foldl_f32_add_exact:
  "\<forall>y\<in>set ys. 0 \<le> y \<Longrightarrow> 0 \<le> a \<Longrightarrow> a + sum_list ys \<le> 2 ^ 24 \<Longrightarrow>
   foldl f32_add (Finite False (of_int a)) (map f32_of_int ys)
     = Finite False (of_int (a + sum_list ys))"
proof (induction ys arbitrary: a)
  case (Cons y ys)
  then have y: "0 \<le> y" and rest: "\<forall>y\<in>set ys. 0 \<le> y" by simp_all
  from rest have "0 \<le> sum_list ys" by (simp add: sum_list_nonneg)
  with Cons.prems y have le: "a + y \<le> 2 ^ 24" "y \<le> 2 ^ 24" by simp_all
  with y have fy: "f32_of_int y = Finite False (of_int y)"
    by (simp add: f32_of_int_exact)
  have "f32_add (Finite False (of_int a)) (f32_of_int y) = Finite False (of_int (a + y))"
    unfolding fy using Cons.prems(2) y le(1) by (rule f32_add_exact)
  moreover have "foldl f32_add (Finite False (of_int (a + y))) (map f32_of_int ys)
                   = Finite False (of_int (a + y + sum_list ys))"
    using rest Cons.prems y by (intro Cons.IH) simp_all
  ultimately show ?case by (simp add: add.assoc)
qed simp

section \<open>Facts about the integer conversions\<close>

lemma uint_of_nat_16: "k \<le> 65535 \<Longrightarrow> uint (of_nat k :: 16 word) = int k"
  by (simp add: unsigned_of_nat take_bit_nat_eq_self)

lemma mod_65536_upper: "(x + 32768) mod 65536 = x - 32768" if "32768 \<le> x" "x < 65536" for x :: int
proof -
  have "x + 32768 = x - 32768 + 65536" by simp
  then have "(x + 32768) mod 65536 = (x - 32768 + 65536) mod 65536" by (simp only:)
  also have "\<dots> = (x - 32768) mod 65536" by (simp only: mod_add_self2)
  also have "\<dots> = x - 32768" using that by (intro mod_pos_pos_trivial) simp_all
  finally show ?thesis .
qed

lemma sint_16_cases:
  "sint (v :: 16 word) = (if uint v < 32768 then uint v else uint v - 65536)"
proof (cases "uint v < 32768")
  case True
  moreover have "- (2 ^ 15) \<le> uint v"
    by (rule order_trans [OF _ uint_ge_0]) simp
  ultimately have "signed_take_bit 15 (uint v) = uint v"
    by (intro signed_take_bit_int_eq_self) simp_all
  with True show ?thesis by (simp add: sint_uint)
next
  case False
  have "uint v < 65536" using uint_lt2p [of v] by simp
  with False have "(uint v + 32768) mod 65536 = uint v - 32768"
    by (intro mod_65536_upper) simp_all
  with False show ?thesis
    by (simp add: sint_uint signed_take_bit_eq_take_bit_shift take_bit_eq_mod)
qed

section \<open>The sampling loop\<close>

lemma readDustRawOnce_eq:
  "readDustRawOnce s hw =
     (adc_input hw (adc_reads hw),
      hw\<lparr>pin_level := (pin_level hw)(ledOutputPin s := True),
         elapsed_us := elapsed_us hw + 280,
         adc_reads := adc_reads hw + 1\<rparr>)"
  by (simp add: readDustRawOnce_def digitalWrite_def delayMicroseconds_def analogRead_def)

lemma sampled_Suc:
  "sampled (Suc k) hw = adc_input hw (adc_reads hw) #
     sampled k (hw\<lparr>pin_level := p, elapsed_us := e, adc_reads := adc_reads hw + 1\<rparr>)"
  by (simp add: sampled_def upt_rec [of 0] map_Suc_upt [symmetric] del: upt_Suc)

text \<open>
  With at most 255 samples the loop ends, after one round per sample.
\<close>

lemma getDustDensity_loop_result:
  "uint i + int k = uint n \<Longrightarrow> uint n \<le> 255 \<Longrightarrow>
   getDustDensity_loop s n i tot hw =
     Some (tot + sum_list (map ucast (sampled k hw)), board_after s k hw)"
proof (induction k arbitrary: i tot hw)
  case 0
  then show ?case
    by (subst getDustDensity_loop.simps) (simp add: sampled_def board_after_def)
next
  case (Suc k)
  let ?hw1 = "hw\<lparr>pin_level := (pin_level hw)(ledOutputPin s := True),
                  elapsed_us := elapsed_us hw + 280 + 9620,
                  adc_reads := adc_reads hw + 1\<rparr>"
  from Suc.prems have lt: "uint i < uint n" by simp
  from Suc.prems have "uint i < 255" by simp
  then have "uint (i + 1) = uint i + 1"
    by (simp add: uint_word_ariths)
  with Suc.prems have next_i: "uint (i + 1) + int k = uint n" by simp
  have rd: "readDustRawOnce s hw = (adc_input hw (adc_reads hw), snd (readDustRawOnce s hw))"
    by (simp add: readDustRawOnce_eq)
  have hw1: "delayMicroseconds 9620 (snd (readDustRawOnce s hw)) = ?hw1"
    by (simp add: readDustRawOnce_eq delayMicroseconds_def)
  have "getDustDensity_loop s n i tot hw =
          getDustDensity_loop s n (i + 1) (tot + ucast (adc_input hw (adc_reads hw))) ?hw1"
    by (subst getDustDensity_loop.simps, subst rd) (simp only: lt if_True prod.case hw1)
  also have "\<dots> = Some (tot + ucast (adc_input hw (adc_reads hw))
                       + sum_list (map ucast (sampled k ?hw1)), board_after s k ?hw1)"
    by (rule Suc.IH [OF next_i Suc.prems(2)])
  also have "board_after s k ?hw1 = board_after s (Suc k) hw"
    by (simp add: board_after_def)
  also have "tot + ucast (adc_input hw (adc_reads hw)) + sum_list (map ucast (sampled k ?hw1))
             = tot + sum_list (map ucast (sampled (Suc k) hw))"
    by (simp add: sampled_Suc [where p = "(pin_level hw)(ledOutputPin s := True)"
                                and e = "elapsed_us hw + 280 + 9620"])
  finally show ?case .
qed

text \<open>
  A call of the loop that returns was made with at most 255 samples.
\<close>

lemma getDustDensity_loop_returns_small:
  assumes "getDustDensity_loop s n i tot hw = Some r"
  shows "uint n \<le> 255"
proof (rule getDustDensity_loop.raw_induct
         [where P = "\<lambda>s n i tot hw r. uint n \<le> 255", OF _ assms])
  fix f :: "GP2YDustSensor \<Rightarrow> 16 word \<Rightarrow> 8 word \<Rightarrow> 32 word \<Rightarrow> hardware
              \<Rightarrow> (32 word \<times> hardware) option"
  fix s n and i :: "8 word" and tot hw r
  assume IH: "\<And>s n i tot hw r. f s n i tot hw = Some r \<Longrightarrow> uint n \<le> 255"
  assume step: "(if uint i < uint n
      then case readDustRawOnce s hw of
           (VoRaw, hw1) \<Rightarrow> f s n (i + 1) (tot + ucast VoRaw) (delayMicroseconds 9620 hw1)
      else Some (tot, hw)) = Some r"
  show "uint n \<le> 255"
  proof (cases "uint i < uint n")
    case True
    with step IH show ?thesis by (auto split: prod.splits)
  next
    case False
    have "uint i < 256" using uint_lt2p [of i] by simp
    with False show ?thesis by simp
  qed
qed

lemma getDustDensity_loop_diverges:
  "256 \<le> uint n \<Longrightarrow> getDustDensity_loop s n i tot hw = None"
  using getDustDensity_loop_returns_small [of s n i tot hw]
  by (cases "getDustDensity_loop s n i tot hw") auto

lemma getDustDensity_eq:
  "1 \<le> uint n \<Longrightarrow> uint n \<le> 255 \<Longrightarrow>
   getDustDensity n s hw =
     Some (case getDustDensity_rest n (sum_list (map ucast (sampled (unat n) hw))) s of
             Inl e \<Rightarrow> Inl e
           | Inr (d, s') \<Rightarrow> Inr (d, s', board_after s (unat n) hw))"
  using getDustDensity_loop_result [of 0 "unat n" n s 0 hw]
  by (simp add: getDustDensity_def)

lemma sampled_steady: "sampled k (steady_board r) = replicate k r"
  by (simp add: sampled_def steady_board_def map_replicate_const)

lemma getDustDensity_loop_steady_20:
  "getDustDensity_loop s 20 0 0 (steady_board r)
     = Some (20 * ucast r, board_after s 20 (steady_board r))"
  using getDustDensity_loop_result [of 0 20 20 s 0 "steady_board r"]
  by (simp add: sampled_steady sum_list_replicate)

lemma getDustDensity_steady_20:
  "getDustDensity 20 s (steady_board r) =
     Some (case getDustDensity_rest 20 (20 * ucast r) s of
             Inl e \<Rightarrow> Inl e
           | Inr (d, s') \<Rightarrow> Inr (d, s', board_after s 20 (steady_board r)))"
  by (simp add: getDustDensity_def getDustDensity_loop_steady_20)

section \<open>What the member functions change and keep\<close>

lemma updateRunningAverage_ok:
  assumes "window_ok s" "runningAverageCount s \<noteq> 0"
  shows "\<exists>s'. updateRunningAverage v s = Inr s'"
  using assms by (auto simp: updateRunningAverage_def window_ok_def Let_def)

lemma updateRunningAverage_eq:
  "window_ok s \<Longrightarrow> runningAverageCount s \<noteq> 0 \<Longrightarrow>
   updateRunningAverage v s =
     Inr (s\<lparr>runningAverageBuffer :=
               (runningAverageBuffer s)[nat (nextRunningAverageCounter s) := v],
            nextRunningAverageCounter :=
               (if runningAverageCount s \<le> nextRunningAverageCounter s + 1 then 0
                else nextRunningAverageCounter s + 1)\<rparr>)"
  by (auto simp: updateRunningAverage_def window_ok_def Let_def)

lemma updateRunningAverage_frame:
  "updateRunningAverage v s = Inr s' \<Longrightarrow>
   same_settings s s' \<and> minDustVoltage s' = minDustVoltage s \<and> readCount s' = readCount s
   \<and> hasBaselineCandidate s' = hasBaselineCandidate s
   \<and> length (runningAverageBuffer s') = length (runningAverageBuffer s)
   \<and> 0 \<le> nextRunningAverageCounter s'
   \<and> (nextRunningAverageCounter s' < runningAverageCount s \<or> nextRunningAverageCounter s' = 0)"
  by (auto simp: updateRunningAverage_def same_settings_def Let_def split: if_splits)

lemma dustDensityOf_trackMinimum [simp]:
  "dustDensityOf (trackMinimum v s) w = dustDensityOf s w"
  by (simp add: dustDensityOf_def trackMinimum_def)

lemma window_ok_trackMinimum [simp]: "window_ok (trackMinimum v s) = window_ok s"
  by (simp add: window_ok_def trackMinimum_def)

lemma runningAverageCount_trackMinimum [simp]:
  "runningAverageCount (trackMinimum v s) = runningAverageCount s"
  by (simp add: trackMinimum_def)

lemma getDustDensity_rest_ok:
  assumes "n \<noteq> 0" "window_ok s"
    and "dustDensityOf s (scaledVoltage s (ucast (tot div ucast n))) = Inr d"
  shows "\<exists>s'. getDustDensity_rest n tot s = Inr (d, s')"
proof (cases "runningAverageCount s = 0")
  case True
  with assms show ?thesis by (simp add: getDustDensity_rest_def Let_def)
next
  case False
  with assms(2) obtain s2 where
    "updateRunningAverage d (trackMinimum (scaledVoltage s (ucast (tot div ucast n))) s) = Inr s2"
    using updateRunningAverage_ok [of "trackMinimum (scaledVoltage s (ucast (tot div ucast n))) s" d]
    by auto
  with assms False show ?thesis by (simp add: getDustDensity_rest_def Let_def)
qed

lemma getDustDensity_returns:
  assumes "getDustDensity_loop s n 0 0 hw = Some (tot, hw')" "n \<noteq> 0" "window_ok s"
    and "dustDensityOf s (scaledVoltage s (ucast (tot div ucast n))) = Inr d"
  shows "\<exists>s'. getDustDensity n s hw = Some (Inr (d, s', hw'))"
proof -
  from getDustDensity_rest_ok [OF assms(2-4)] obtain s' where
    "getDustDensity_rest n tot s = Inr (d, s')" by blast
  with assms(1) show ?thesis by (simp add: getDustDensity_def)
qed

lemma getDustDensity_result:
  assumes "getDustDensity n s hw = Some (Inr (d, s', hw'))"
  shows "\<exists>tot s2. getDustDensity_loop s n 0 0 hw = Some (tot, hw') \<and> n \<noteq> 0
           \<and> dustDensityOf s (scaledVoltage s (ucast (tot div ucast n))) = Inr d
           \<and> (runningAverageCount s \<noteq> 0
                \<and> updateRunningAverage d
                      (trackMinimum (scaledVoltage s (ucast (tot div ucast n))) s) = Inr s2
               \<or> runningAverageCount s = 0
                \<and> s2 = trackMinimum (scaledVoltage s (ucast (tot div ucast n))) s)
           \<and> s' = countReading s2"
  using assms
  by (auto simp: getDustDensity_def getDustDensity_rest_def Let_def
           split: option.splits sum.splits prod.splits if_splits)

lemma trackMinimum_frame:
  "same_settings s (trackMinimum v s) \<and> readCount (trackMinimum v s) = readCount s
   \<and> hasBaselineCandidate (trackMinimum v s) = hasBaselineCandidate s
   \<and> runningAverageBuffer (trackMinimum v s) = runningAverageBuffer s
   \<and> nextRunningAverageCounter (trackMinimum v s) = nextRunningAverageCounter s"
  by (simp add: trackMinimum_def same_settings_def)

lemma countReading_frame:
  "same_settings s (countReading s) \<and> minDustVoltage (countReading s) = minDustVoltage s
   \<and> runningAverageBuffer (countReading s) = runningAverageBuffer s
   \<and> nextRunningAverageCounter (countReading s) = nextRunningAverageCounter s"
  by (simp add: countReading_def same_settings_def Let_def)

lemma same_settings_trans: "same_settings a b \<Longrightarrow> same_settings b c \<Longrightarrow> same_settings a c"
  by (simp add: same_settings_def)

lemma getDustDensity_frame:
  assumes "getDustDensity n s hw = Some (Inr (d, s', hw'))"
  shows "same_settings s s'"
proof -
  from getDustDensity_result [OF assms] obtain tot :: "32 word" and s2 where
    s2: "runningAverageCount s \<noteq> 0
          \<and> updateRunningAverage d
                (trackMinimum (scaledVoltage s (ucast (tot div ucast n))) s) = Inr s2
         \<or> runningAverageCount s = 0
          \<and> s2 = trackMinimum (scaledVoltage s (ucast (tot div ucast n))) s"
    and s': "s' = countReading s2" by blast
  let ?t = "trackMinimum (scaledVoltage s (ucast (tot div ucast n))) s"
  have "same_settings ?t s2"
    using s2 updateRunningAverage_frame [of d ?t s2]
    by (cases "runningAverageCount s = 0") (simp_all add: same_settings_def)
  with trackMinimum_frame [of s] countReading_frame [of s2] s' show ?thesis
    by (blast intro: same_settings_trans)
qed

lemma window_ok_getDustDensity:
  assumes "getDustDensity n s hw = Some (Inr (d, s', hw'))" "window_ok s"
  shows "window_ok s'"
proof -
  from getDustDensity_result [OF assms(1)] obtain tot :: "32 word" and s2 where
    s2: "runningAverageCount s \<noteq> 0
          \<and> updateRunningAverage d
                (trackMinimum (scaledVoltage s (ucast (tot div ucast n))) s) = Inr s2
         \<or> runningAverageCount s = 0
          \<and> s2 = trackMinimum (scaledVoltage s (ucast (tot div ucast n))) s"
    and s': "s' = countReading s2" by blast
  let ?t = "trackMinimum (scaledVoltage s (ucast (tot div ucast n))) s"
  have t: "window_ok ?t" using assms(2) trackMinimum_frame [of s]
    by (simp add: window_ok_def same_settings_def)
  have "window_ok s2"
  proof (cases "runningAverageCount s = 0")
    case True with s2 t show ?thesis by simp
  next
    case False
    with s2 have "updateRunningAverage d ?t = Inr s2" by auto
    from updateRunningAverage_frame [OF this] t show ?thesis
      by (auto simp: window_ok_def same_settings_def)
  qed
  with s' countReading_frame [of s2] show ?thesis
    by (simp add: window_ok_def same_settings_def)
qed

lemma flag_counts_countReading: "flag_counts s \<Longrightarrow> flag_counts (countReading s)"
  by (auto simp: flag_counts_def countReading_def Let_def BASELINE_CANDIDATE_MIN_READINGS_def
                 uint_word_ariths)

lemma flag_counts_getDustDensity:
  assumes "getDustDensity n s hw = Some (Inr (d, s', hw'))" "flag_counts s"
  shows "flag_counts s'"
proof -
  from getDustDensity_result [OF assms(1)] obtain tot :: "32 word" and s2 where
    s2: "runningAverageCount s \<noteq> 0
          \<and> updateRunningAverage d
                (trackMinimum (scaledVoltage s (ucast (tot div ucast n))) s) = Inr s2
         \<or> runningAverageCount s = 0
          \<and> s2 = trackMinimum (scaledVoltage s (ucast (tot div ucast n))) s"
    and s': "s' = countReading s2" by blast
  let ?t = "trackMinimum (scaledVoltage s (ucast (tot div ucast n))) s"
  have t: "flag_counts ?t" using assms(2) trackMinimum_frame [of s]
    by (simp add: flag_counts_def)
  have "flag_counts s2"
    using s2 t updateRunningAverage_frame [of d ?t s2]
    by (cases "runningAverageCount s = 0") (simp_all add: flag_counts_def)
  with s' show ?thesis by (simp add: flag_counts_countReading)
qed

lemma tracked_getDustDensity:
  assumes "getDustDensity n s hw = Some (Inr (d, s', hw'))"
  shows "minDustVoltage s' = minDustVoltage s
         \<or> f32_lt (minDustVoltage s') (minDustVoltage s)
           \<and> f32_ge (minDustVoltage s') (minZeroDustVoltage s)
           \<and> f32_le (minDustVoltage s') (maxZeroDustVoltage s)"
proof -
  from getDustDensity_result [OF assms(1)] obtain tot :: "32 word" and s2 where
    s2: "runningAverageCount s \<noteq> 0
          \<and> updateRunningAverage d
                (trackMinimum (scaledVoltage s (ucast (tot div ucast n))) s) = Inr s2
         \<or> runningAverageCount s = 0
          \<and> s2 = trackMinimum (scaledVoltage s (ucast (tot div ucast n))) s"
    and s': "s' = countReading s2" by blast
  let ?t = "trackMinimum (scaledVoltage s (ucast (tot div ucast n))) s"
  have "minDustVoltage s2 = minDustVoltage ?t"
    using s2 updateRunningAverage_frame [of d ?t s2]
    by (cases "runningAverageCount s = 0") simp_all
  with s' countReading_frame [of s2] have "minDustVoltage s' = minDustVoltage ?t" by simp
  then show ?thesis by (auto simp: trackMinimum_def split: if_splits)
qed

lemma getRunningAverage_state: "getRunningAverage r s = Inr (a, s') \<Longrightarrow> s' = s"
  by (auto simp: getRunningAverage_def split: if_splits prod.splits sum.splits)

lemma getBaselineCandidate_eq:
  "getBaselineCandidate s =
     (if hasBaselineCandidate s
      then (minDustVoltage s,
            s\<lparr>minDustVoltage := maxZeroDustVoltage s,
               currentBaselineCandidate := maxZeroDustVoltage s,
               readCount := 0, hasBaselineCandidate := False\<rparr>)
      else (currentBaselineCandidate s, s))"
  by (simp add: getBaselineCandidate_def Let_def)

lemma getBaselineCandidate_repeat:
  "\<not> hasBaselineCandidate s \<Longrightarrow> ((snd \<circ> getBaselineCandidate) ^^ k) s = s"
  by (induction k) (simp_all add: getBaselineCandidate_eq)

lemma tracked_in_range_getBaselineCandidate:
  "tracked_in_range s \<Longrightarrow> tracked_in_range (snd (getBaselineCandidate s))"
  by (auto simp: tracked_in_range_def getBaselineCandidate_eq
           intro: f32_le_trans f32_le_refl_right)

lemma tracked_in_range_getDustDensity:
  assumes "getDustDensity n s hw = Some (Inr (d, s', hw'))" "tracked_in_range s"
  shows "tracked_in_range s'"
  using tracked_getDustDensity [OF assms(1)] getDustDensity_frame [OF assms(1)] assms(2)
  by (auto simp: tracked_in_range_def same_settings_def f32_ge_def)

section \<open>The objects a program can reach\<close>

lemma new_window_ok: "window_ok (new_GP2YDustSensor ty lp ap c vr)"
proof -
  have "uint c \<le> 65535" using uint_lt2p [of c] by simp
  moreover have "0 < uint c \<or> uint c = 0" using uint_ge_0 [of c] by linarith
  ultimately show ?thesis by (auto simp: window_ok_def new_GP2YDustSensor_def Let_def)
qed

lemma new_flag_counts: "flag_counts (new_GP2YDustSensor ty lp ap c vr)"
  by (simp add: flag_counts_def new_GP2YDustSensor_def Let_def)

lemma new_tracked_in_range: "tracked_in_range (new_GP2YDustSensor ty lp ap c vr)"
  by (cases ty)
     (simp_all add: tracked_in_range_def new_GP2YDustSensor_def Let_def f32_lit_consts
        f32_lit_consts_normal f32_of_int_consts sval_def)

lemma reachable_window_ok:
  "reachable s0 s \<Longrightarrow> window_ok s0 \<Longrightarrow> window_ok s"
proof (induction rule: reachable.induct)
  case (reach_getDustDensity s n hw d s' hw')
  then show ?case using window_ok_getDustDensity by blast
next
  case (reach_getRunningAverage s r a s')
  then show ?case using getRunningAverage_state by blast
qed (simp_all add: window_ok_def setBaseline_def setSensitivity_def setCalibrationFactor_def
       getBaselineCandidate_eq)

lemma reachable_flag_counts:
  "reachable s0 s \<Longrightarrow> flag_counts s0 \<Longrightarrow> flag_counts s"
proof (induction rule: reachable.induct)
  case (reach_getDustDensity s n hw d s' hw')
  then show ?case using flag_counts_getDustDensity by blast
next
  case (reach_getRunningAverage s r a s')
  then show ?case using getRunningAverage_state by blast
qed (simp_all add: flag_counts_def setBaseline_def setSensitivity_def setCalibrationFactor_def
       getBaselineCandidate_eq)

lemma reachable_count:
  "reachable s0 s \<Longrightarrow> runningAverageCount s = runningAverageCount s0"
proof (induction rule: reachable.induct)
  case (reach_getDustDensity s n hw d s' hw')
  then show ?case using getDustDensity_frame [of n s hw d s' hw'] by (simp add: same_settings_def)
next
  case (reach_getRunningAverage s r a s')
  then show ?case using getRunningAverage_state by blast
qed (simp_all add: setBaseline_def setSensitivity_def setCalibrationFactor_def
       getBaselineCandidate_eq)

lemma reachable_tracked_in_range:
  "reachable s0 s \<Longrightarrow> tracked_in_range s0 \<Longrightarrow> tracked_in_range s"
proof (induction rule: reachable.induct)
  case (reach_getDustDensity s n hw d s' hw')
  then show ?case using tracked_in_range_getDustDensity by blast
next
  case (reach_getRunningAverage s r a s')
  then show ?case using getRunningAverage_state by blast
next
  case (reach_getBaselineCandidate s)
  then show ?case by (simp add: tracked_in_range_getBaselineCandidate)
qed (simp_all add: tracked_in_range_def setBaseline_def setSensitivity_def
       setCalibrationFactor_def)

lemma reachable_same_settings:
  "reachable s0 s \<Longrightarrow>
     typZeroDustVoltage s = typZeroDustVoltage s0 \<and> maxZeroDustVoltage s = maxZeroDustVoltage s0
     \<and> (currentBaselineCandidate s = currentBaselineCandidate s0
        \<or> currentBaselineCandidate s = maxZeroDustVoltage s0)"
proof (induction rule: reachable.induct)
  case (reach_getDustDensity s n hw d s' hw')
  then show ?case using getDustDensity_frame [of n s hw d s' hw'] by (simp add: same_settings_def)
next
  case (reach_getRunningAverage s r a s')
  then show ?case using getRunningAverage_state by blast
qed (auto simp: setBaseline_def setSensitivity_def setCalibrationFactor_def
       getBaselineCandidate_eq)

text \<open>
  Eleven readings of raw mean 100 on a new GP2Y1014AU0F without a window: the tracked
  minimum is 0.48828125 V and the candidate flag is set.
\<close>

lemma eleven_readings:
  "reachable (new_GP2YDustSensor GP2Y1014AU0F 2 0 0 (f32_of_int 5))
     ((new_GP2YDustSensor GP2Y1014AU0F 2 0 0 (f32_of_int 5))
        \<lparr>minDustVoltage := Finite False (125 / 256), readCount := 11,
         hasBaselineCandidate := True\<rparr>)"
proof -
  let ?n = "new_GP2YDustSensor GP2Y1014AU0F 2 0 0 (f32_of_int 5)"
  have step: "reachable ?n s'"
    if "reachable ?n s" and "getDustDensity_rest 20 2000 s = Inr (0, s')" for s s'
  proof -
    from that(2) have "getDustDensity 20 s (steady_board 100)
                         = Some (Inr (0, s', board_after s 20 (steady_board 100)))"
      by (simp add: getDustDensity_steady_20)
    with that(1) show ?thesis by (rule reach_getDustDensity)
  qed
  have r0: "reachable ?n ?n" by (rule reach_start)
  have "getDustDensity_rest 20 2000 ?n = Inr (0, (?n\<lparr>minDustVoltage := Finite False (125 / 256), readCount := 1, hasBaselineCandidate := False\<rparr>))"
    by code_simp
  from step [OF r0 this] have r1: "reachable ?n (?n\<lparr>minDustVoltage := Finite False (125 / 256), readCount := 1, hasBaselineCandidate := False\<rparr>)" .
  have "getDustDensity_rest 20 2000 (?n\<lparr>minDustVoltage := Finite False (125 / 256), readCount := 1, hasBaselineCandidate := False\<rparr>) = Inr (0, (?n\<lparr>minDustVoltage := Finite False (125 / 256), readCount := 2, hasBaselineCandidate := False\<rparr>))"
    by code_simp
  from step [OF r1 this] have r2: "reachable ?n (?n\<lparr>minDustVoltage := Finite False (125 / 256), readCount := 2, hasBaselineCandidate := False\<rparr>)" .
  have "getDustDensity_rest 20 2000 (?n\<lparr>minDustVoltage := Finite False (125 / 256), readCount := 2, hasBaselineCandidate := False\<rparr>) = Inr (0, (?n\<lparr>minDustVoltage := Finite False (125 / 256), readCount := 3, hasBaselineCandidate := False\<rparr>))"
    by code_simp
  from step [OF r2 this] have r3: "reachable ?n (?n\<lparr>minDustVoltage := Finite False (125 / 256), readCount := 3, hasBaselineCandidate := False\<rparr>)" .
  have "getDustDensity_rest 20 2000 (?n\<lparr>minDustVoltage := Finite False (125 / 256), readCount := 3, hasBaselineCandidate := False\<rparr>) = Inr (0, (?n\<lparr>minDustVoltage := Finite False (125 / 256), readCount := 4, hasBaselineCandidate := False\<rparr>))"
    by code_simp
  from step [OF r3 this] have r4: "reachable ?n (?n\<lparr>minDustVoltage := Finite False (125 / 256), readCount := 4, hasBaselineCandidate := False\<rparr>)" .
  have "getDustDensity_rest 20 2000 (?n\<lparr>minDustVoltage := Finite False (125 / 256), readCount := 4, hasBaselineCandidate := False\<rparr>) = Inr (0, (?n\<lparr>minDustVoltage := Finite False (125 / 256), readCount := 5, hasBaselineCandidate := False\<rparr>))"
    by code_simp
  from step [OF r4 this] have r5: "reachable ?n (?n\<lparr>minDustVoltage := Finite False (125 / 256), readCount := 5, hasBaselineCandidate := False\<rparr>)" .
  have "getDustDensity_rest 20 2000 (?n\<lparr>minDustVoltage := Finite False (125 / 256), readCount := 5, hasBaselineCandidate := False\<rparr>) = Inr (0, (?n\<lparr>minDustVoltage := Finite False (125 / 256), readCount := 6, hasBaselineCandidate := False\<rparr>))"
    by code_simp
  from step [OF r5 this] have r6: "reachable ?n (?n\<lparr>minDustVoltage := Finite False (125 / 256), readCount := 6, hasBaselineCandidate := False\<rparr>)" .
  have "getDustDensity_rest 20 2000 (?n\<lparr>minDustVoltage := Finite False (125 / 256), readCount := 6, hasBaselineCandidate := False\<rparr>) = Inr (0, (?n\<lparr>minDustVoltage := Finite False (125 / 256), readCount := 7, hasBaselineCandidate := False\<rparr>))"
    by code_simp
  from step [OF r6 this] have r7: "reachable ?n (?n\<lparr>minDustVoltage := Finite False (125 / 256), readCount := 7, hasBaselineCandidate := False\<rparr>)" .
  have "getDustDensity_rest 20 2000 (?n\<lparr>minDustVoltage := Finite False (125 / 256), readCount := 7, hasBaselineCandidate := False\<rparr>) = Inr (0, (?n\<lparr>minDustVoltage := Finite False (125 / 256), readCount := 8, hasBaselineCandidate := False\<rparr>))"
    by code_simp
  from step [OF r7 this] have r8: "reachable ?n (?n\<lparr>minDustVoltage := Finite False (125 / 256), readCount := 8, hasBaselineCandidate := False\<rparr>)" .
  have "getDustDensity_rest 20 2000 (?n\<lparr>minDustVoltage := Finite False (125 / 256), readCount := 8, hasBaselineCandidate := False\<rparr>) = Inr (0, (?n\<lparr>minDustVoltage := Finite False (125 / 256), readCount := 9, hasBaselineCandidate := False\<rparr>))"
    by code_simp
  from step [OF r8 this] have r9: "reachable ?n (?n\<lparr>minDustVoltage := Finite False (125 / 256), readCount := 9, hasBaselineCandidate := False\<rparr>)" .
  have "getDustDensity_rest 20 2000 (?n\<lparr>minDustVoltage := Finite False (125 / 256), readCount := 9, hasBaselineCandidate := False\<rparr>) = Inr (0, (?n\<lparr>minDustVoltage := Finite False (125 / 256), readCount := 10, hasBaselineCandidate := False\<rparr>))"
    by code_simp
  from step [OF r9 this] have r10: "reachable ?n (?n\<lparr>minDustVoltage := Finite False (125 / 256), readCount := 10, hasBaselineCandidate := False\<rparr>)" .
  have "getDustDensity_rest 20 2000 (?n\<lparr>minDustVoltage := Finite False (125 / 256), readCount := 10, hasBaselineCandidate := False\<rparr>) = Inr (0, (?n\<lparr>minDustVoltage := Finite False (125 / 256), readCount := 11, hasBaselineCandidate := True\<rparr>))"
    by code_simp
  from step [OF r10 this] have r11: "reachable ?n (?n\<lparr>minDustVoltage := Finite False (125 / 256), readCount := 11, hasBaselineCandidate := True\<rparr>)" .
  from r11 show ?thesis .
qed

section \<open>The density of a voltage\<close>

lemma dustDensityOf_floor:
  assumes "f32_le v (zeroDustVoltage s)" "f32_lt (f32_of_int 0) (sensitivity s)"
    and "is_finite v \<or> v \<noteq> zeroDustVoltage s"
  shows "dustDensityOf s v = Inr 0"
proof (cases "f32_lt v (zeroDustVoltage s)")
  case True
  then show ?thesis by (simp add: dustDensityOf_def)
next
  case False
  with assms obtain sa a sb b where v: "v = Finite sa a" and z: "zeroDustVoltage s = Finite sb b"
    and eq: "sval sa a = sval sb b"
    using f32_le_not_lt by blast
  from f32_sub_equal [OF eq] obtain s1 where 1: "f32_sub v (zeroDustVoltage s) = Finite s1 0"
    using v z by auto
  from assms(2) have "f32_lt (Finite False 0) (sensitivity s)" by (simp add: f32_of_int_consts)
  from f32_div_zero_pos [OF this] obtain s2 where 2: "f32_div (Finite s1 0) (sensitivity s) = Finite s2 0"
    by blast
  show ?thesis using False by (simp add: dustDensityOf_def 1 2 f32_of_int_consts)
qed

text \<open>
  A voltage and a baseline that are the same infinity compare as equal; their difference
  is NaN, and C++ leaves the conversion of NaN to \<^verbatim>\<open>uint16_t\<close> undefined.
\<close>

lemma dustDensityOf_same_infinity:
  "zeroDustVoltage s = Infinity sg \<Longrightarrow> dustDensityOf s (Infinity sg) = Inl FloatToIntUndefined"
  by (simp add: dustDensityOf_def f32_sub_def)

lemma dustDensityOf_truncates:
  assumes "\<not> f32_lt v (zeroDustVoltage s)"
    and "f32_mul (f32_div (f32_sub v (zeroDustVoltage s)) (sensitivity s)) (f32_of_int 100) = Finite sg m"
    and "0 \<le> m" "m < 65536" "sg \<longrightarrow> m < 1"
  shows "dustDensityOf s v = Inr (word_of_int \<lfloor>m\<rfloor>)"
proof -
  have "0 \<le> \<lfloor>m\<rfloor>" "\<lfloor>m\<rfloor> \<le> 65535" using assms(3,4) by (simp_all add: floor_less_iff le_floor_iff)
  moreover have "sg \<Longrightarrow> \<lfloor>m\<rfloor> = 0" using assms(3,5) by (simp add: floor_eq_iff)
  ultimately show ?thesis using assms(1,2) by (auto simp: dustDensityOf_def Let_def)
qed

section \<open>The running average window\<close>

lemma contributions_append [simp]:
  "contributions (xs @ ys) = contributions xs @ contributions ys"
  by (simp add: contributions_def)

lemma contributions_Nil [simp]: "contributions [] = []"
  by (simp add: contributions_def)

lemma contributions_Cons:
  "contributions (x # xs) = (if sint x = - 1 then contributions xs else sint x # contributions xs)"
  by (simp add: contributions_def)

lemma length_contributions: "length (contributions xs) \<le> length xs"
  by (simp add: contributions_def)

lemma contributions_replicate_empty: "contributions (replicate n (- 1)) = []"
  by (simp add: contributions_def)

lemma contributions_small:
  "\<forall>v\<in>set vs. uint v \<le> 32767 \<Longrightarrow> contributions vs = map uint vs"
proof (induction vs)
  case (Cons v vs)
  then have "uint v \<le> 32767" by simp
  moreover have "- (2 ^ 15) \<le> uint v"
    by (rule order_trans [OF _ uint_ge_0]) simp
  ultimately have "signed_take_bit 15 (uint v) = uint v"
    by (intro signed_take_bit_int_eq_self) simp_all
  then have "sint v = uint v" by (simp add: sint_uint)
  moreover have "uint v \<noteq> - 1"
    using uint_ge_0 [of v] by (metis not_one_le_zero neg_0_le_iff_le)
  ultimately show ?case using Cons by (simp add: contributions_Cons)
qed simp

text \<open>
  The loop of \<^verbatim>\<open>getRunningAverage\<close> in terms of the contributions.
\<close>

lemma foldl_averageStep:
  "foldl averageStep (a, n) xs =
     (foldl f32_add a (map f32_of_int (contributions xs)),
      n + of_nat (length (contributions xs)))"
  by (induction xs arbitrary: a n) (simp_all add: averageStep_def contributions_Cons)

lemma getRunningAverage_eq:
  assumes "window_ok s" "runningAverageCount s \<noteq> 0"
  shows "getRunningAverage r s =
     (if contributions (runningAverageBuffer s) = [] then Inr (0, s)
      else case r (f32_div (float_sum (runningAverageBuffer s))
                     (f32_of_int (int (length (contributions (runningAverageBuffer s)))))) of
             Inl e \<Rightarrow> Inl e
           | Inr a \<Rightarrow> Inr (a, s))"
proof -
  let ?b = "runningAverageBuffer s"
  let ?xs = "contributions ?b"
  from assms have len: "int (length ?b) = runningAverageCount s" and le: "length ?b \<le> 65535"
    by (simp_all add: window_ok_def)
  then have tk: "take (nat (runningAverageCount s)) ?b = ?b" by simp
  have k: "length ?xs \<le> 65535" using length_contributions [of ?b] le by simp
  have u: "uint (of_nat (length ?xs) :: 16 word) = int (length ?xs)"
    by (rule uint_of_nat_16 [OF k])
  have z: "((of_nat (length ?xs) :: 16 word) = 0) = (?xs = [])"
  proof
    assume "(of_nat (length ?xs) :: 16 word) = 0"
    then have "uint (of_nat (length ?xs) :: 16 word) = 0" by simp
    with u show "?xs = []" by simp
  qed simp
  show ?thesis
    using assms(2) len
    by (simp add: getRunningAverage_def tk foldl_averageStep u z float_sum_def)
qed

text \<open>
  A push drops the slot at the write position and appends the new value.
\<close>

lemma window_update:
  assumes "window_ok s" "runningAverageCount s \<noteq> 0" "updateRunningAverage v s = Inr s'"
  shows "window s' = tl (window s) @ [v]"
proof -
  let ?b = "runningAverageBuffer s"
  let ?k = "nat (nextRunningAverageCounter s)"
  from assms(1,2) have k: "?k < length ?b" and len: "int (length ?b) = runningAverageCount s"
    and nn: "0 \<le> nextRunningAverageCounter s"
    by (auto simp: window_ok_def)
  from assms have s': "s' = s\<lparr>runningAverageBuffer := ?b[?k := v],
            nextRunningAverageCounter :=
               (if runningAverageCount s \<le> nextRunningAverageCounter s + 1 then 0
                else nextRunningAverageCounter s + 1)\<rparr>"
    by (simp add: updateRunningAverage_eq)
  have nk: "nat (nextRunningAverageCounter s') = (?k + 1) mod length ?b"
  proof (cases "runningAverageCount s \<le> nextRunningAverageCounter s + 1")
    case True
    with k len nn have "?k + 1 = length ?b" by linarith
    with True show ?thesis by (simp add: s')
  next
    case False
    with len nn have "?k + 1 < length ?b" by linarith
    with False nn show ?thesis by (simp add: s' nat_add_distrib)
  qed
  have rk: "rotate ?k (?b[?k := v]) = v # tl (rotate ?k ?b)"
    using k by (simp add: rotate_drop_take drop_update_cancel upd_conv_take_nth_drop
                  Cons_nth_drop_Suc [symmetric])
  have buf: "runningAverageBuffer s' = ?b[?k := v]" by (simp add: s')
  have "window s' = rotate ((?k + 1) mod length ?b) (?b[?k := v])"
    by (simp only: window_def nk buf)
  also have "\<dots> = rotate (?k + 1) (?b[?k := v])"
    using rotate_conv_mod [of "?k + 1" "?b[?k := v]"] by simp
  also have "\<dots> = rotate1 (rotate ?k (?b[?k := v]))" by simp
  also have "\<dots> = tl (rotate ?k ?b) @ [v]" by (simp add: rk)
  finally show ?thesis by (simp add: window_def)
qed

lemma length_window [simp]: "length (window s) = length (runningAverageBuffer s)"
  by (simp add: window_def)

lemma window_ok_update:
  assumes "window_ok s" "runningAverageCount s \<noteq> 0" "updateRunningAverage v s = Inr s'"
  shows "window_ok s' \<and> runningAverageCount s' = runningAverageCount s"
  using assms(1,2) updateRunningAverage_frame [OF assms(3)]
  by (auto simp: window_ok_def same_settings_def)

lemma pushAll_window:
  assumes "window_ok s" "runningAverageCount s \<noteq> 0"
  shows "\<exists>s'. pushAll ws s = Inr s' \<and> window_ok s'
           \<and> runningAverageCount s' = runningAverageCount s
           \<and> window s' = drop (length ws) (window s @ ws)"
  using assms
proof (induction ws arbitrary: s)
  case Nil
  then show ?case by simp
next
  case (Cons w ws)
  from updateRunningAverage_ok [OF Cons.prems] obtain s1 where
    s1: "updateRunningAverage w s = Inr s1" by blast
  from window_ok_update [OF Cons.prems s1] have ok1: "window_ok s1"
    and c1: "runningAverageCount s1 = runningAverageCount s" by simp_all
  from window_update [OF Cons.prems s1] have w1: "window s1 = tl (window s) @ [w]" .
  from Cons.prems have ne: "window s \<noteq> []"
    by (auto simp: window_ok_def simp flip: length_0_conv)
  from Cons.IH [OF ok1] c1 Cons.prems(2) obtain s' where
    s': "pushAll ws s1 = Inr s'" "window_ok s'" "runningAverageCount s' = runningAverageCount s1"
    "window s' = drop (length ws) (window s1 @ ws)" by auto
  have dd: "drop (length ws) (drop 1 zs) = drop (length (w # ws)) zs" for zs :: "16 word list"
    by simp
  have "window s1 @ ws = drop 1 (window s @ w # ws)"
    using ne by (cases "window s") (simp_all add: w1)
  then have "drop (length ws) (window s1 @ ws) = drop (length (w # ws)) (window s @ w # ws)"
    by (simp only: dd)
  with s' s1 c1 show ?case by (simp del: drop_append length_Cons)
qed

lemma buffer_of_window:
  assumes "window_ok s" "runningAverageCount s \<noteq> 0"
  shows "runningAverageBuffer s
           = rotate (length (runningAverageBuffer s) - nat (nextRunningAverageCounter s)) (window s)"
proof -
  let ?b = "runningAverageBuffer s" and ?k = "nat (nextRunningAverageCounter s)"
  from assms have "?k \<le> length ?b" by (auto simp: window_ok_def)
  then have "rotate (length ?b - ?k) (rotate ?k ?b) = rotate (length ?b) ?b"
    by (simp add: rotate_rotate)
  then show ?thesis by (simp add: window_def)
qed

lemma sum_list_rotate: "sum_list (rotate n xs) = sum_list (xs :: int list)"
proof (induction n)
  case (Suc n)
  have "sum_list (rotate1 ys) = sum_list ys" for ys :: "int list" by (cases ys) simp_all
  with Suc show ?case by simp
qed simp

section \<open>The claims\<close>

subsection \<open>C1: the number of samples and termination\<close>

text \<open>
  C1 (the code departs from the claim). The claim: for every sample count of at least 1,
  \<^verbatim>\<open>getDustDensity\<close> takes exactly that many raw samples through \<^verbatim>\<open>readDustRawOnce\<close>
  and returns, after about 10 ms per sample. The loop counter is a \<^verbatim>\<open>uint8_t\<close> compared
  with the \<^verbatim>\<open>uint16_t\<close> sample count: with 256 samples requested the counter wraps from
  255 to 0, the loop condition never fails, and the call never returns, on any object and
  any board.
\<close>

theorem getDustDensity_256_never_returns:
  "getDustDensity 256 s hw = None"
  by (simp add: getDustDensity_def getDustDensity_loop_diverges)

subsection \<open>C2: the density above the baseline\<close>

text \<open>
  C2 (amended). The claim: at or above the baseline \<^verbatim>\<open>getDustDensity\<close> returns
  \<open>(scaledVoltage - zeroDustVoltage) / sensitivity * 100\<close> rounded to the nearest integer,
  271 for the GP2Y1014AU0F with reference 5 V and raw mean 400. The code assigns the
  float to a \<^verbatim>\<open>uint16_t\<close>, which discards the fractional part. So: when the loop has
  returned the total \<open>tot\<close> and the scaled voltage \<open>v\<close> is not below the baseline, the
  call returns the float value \<open>m\<close> of that expression truncated, \<open>\<lfloor>m\<rfloor>\<close>, whenever that
  fits 16 bits.
\<close>

theorem density_truncated:
  "getDustDensity_loop s n 0 0 hw = Some (tot, hw') \<Longrightarrow> n \<noteq> 0 \<Longrightarrow> window_ok s \<Longrightarrow>
   v = scaledVoltage s (ucast (tot div ucast n)) \<Longrightarrow>
   \<not> f32_lt v (zeroDustVoltage s) \<Longrightarrow>
   f32_mul (f32_div (f32_sub v (zeroDustVoltage s)) (sensitivity s)) (f32_of_int 100) = Finite sg m \<Longrightarrow>
   0 \<le> m \<Longrightarrow> m < 65536 \<Longrightarrow> (sg \<longrightarrow> m < 1) \<Longrightarrow>
   \<exists>s'. getDustDensity n s hw = Some (Inr (word_of_int \<lfloor>m\<rfloor>, s', hw'))"
  by (erule getDustDensity_returns, assumption, assumption, hypsubst, rule dustDensityOf_truncates)

text \<open>
  Raw mean 1000 on a new GP2Y1014AU0F with reference 5 V: the float density is
  \<open>13705 / 16 = 856.5625\<close> and the result 856.
\<close>

theorem density_truncated_witness:
  "f32_mul (f32_div (f32_sub (Finite False (625 / 128)) (Finite False (5033165 / 8388608)))
       (Finite False (1 / 2))) (Finite False 100) = Finite False (13705 / 16)
   \<and> (\<exists>s'. getDustDensity 20 (new_GP2YDustSensor GP2Y1014AU0F 2 0 60 (f32_of_int 5))
         (steady_board 1000)
       = Some (Inr (856, s', board_after (new_GP2YDustSensor GP2Y1014AU0F 2 0 60 (f32_of_int 5))
                                20 (steady_board 1000))))"
proof -
  let ?s = "new_GP2YDustSensor GP2Y1014AU0F 2 0 60 (f32_of_int 5)"
  have loop: "getDustDensity_loop ?s 20 0 0 (steady_board 1000)
                = Some (20000, board_after ?s 20 (steady_board 1000))"
    using getDustDensity_loop_steady_20 [of ?s 1000] by simp
  have avg: "(ucast ((20000 :: 32 word) div ucast (20 :: 16 word)) :: 16 word) = 1000"
    by simp
  have v: "scaledVoltage ?s 1000 = Finite False (625 / 128)"
    by code_simp
  have z: "zeroDustVoltage ?s = Finite False (5033165 / 8388608)"
    by code_simp
  have se: "sensitivity ?s = Finite False (1 / 2)"
    by code_simp
  have h: "f32_of_int 100 = Finite False 100"
    by code_simp
  have p: "f32_mul (f32_div (f32_sub (Finite False (625 / 128)) (Finite False (5033165 / 8388608)))
       (Finite False (1 / 2))) (Finite False 100) = Finite False (13705 / 16)"
    by code_simp
  have ok: "window_ok ?s"
    by (simp add: window_ok_def new_GP2YDustSensor_def Let_def)
  have fl: "\<lfloor>13705 / 16 :: rat\<rfloor> = 856" by code_simp
  have "\<exists>s'. getDustDensity 20 ?s (steady_board 1000)
          = Some (Inr (word_of_int \<lfloor>13705 / 16 :: rat\<rfloor>, s', board_after ?s 20 (steady_board 1000)))"
    by (rule density_truncated [OF loop _ ok, where v = "Finite False (625 / 128)" and sg = False])
       (simp_all only: avg v z se h p, simp_all add: sval_def)
  with p show ?thesis by (simp only: fl) simp
qed

text \<open>
  The scenario of C2, raw mean 400: the float density is 270.625 and the code returns 270,
  not 271.
\<close>

theorem density_rounded_counterexample:
  "\<exists>s' hw'. getDustDensity 20 (new_GP2YDustSensor GP2Y1014AU0F 2 0 60 (f32_of_int 5))
               (steady_board 400) = Some (Inr (270, s', hw'))
           \<and> (270 :: 16 word) \<noteq> 271"
proof -
  let ?s = "new_GP2YDustSensor GP2Y1014AU0F 2 0 60 (f32_of_int 5)"
  have "case getDustDensity_rest 20 8000 ?s of Inl e \<Rightarrow> False | Inr (d, s') \<Rightarrow> d = 270"
    by code_simp
  then obtain s' where "getDustDensity_rest 20 8000 ?s = Inr (270, s')"
    by (cases "getDustDensity_rest 20 8000 ?s") auto
  then show ?thesis by (simp add: getDustDensity_steady_20)
qed

subsection \<open>C3 and C4: the baseline candidate\<close>

text \<open>
  C3 (the code departs from the claim). The claim: while the candidate is not ready,
  every call of \<^verbatim>\<open>getBaselineCandidate\<close> returns the previous candidate value, the same
  on every such call, and changes nothing. The call that hands a candidate out resets
  \<^verbatim>\<open>minDustVoltage\<close> to \<^verbatim>\<open>maxZeroDustVoltage\<close> first and copies \<^verbatim>\<open>minDustVoltage\<close> into
  \<^verbatim>\<open>currentBaselineCandidate\<close> afterwards, so the candidate it returns is not the one it
  keeps. On a GP2Y1014AU0F after eleven readings of 0.48828125 V, an object a program
  reaches, the first call hands out 0.48828125 V and clears the flag and the read
  counter; the next call, with no candidate ready, returns 1.1 V, the maximal zero dust
  voltage, and not the 0.48828125 V handed out before. It does leave the object as it is.
\<close>

theorem getBaselineCandidate_forgets_candidate:
  "(let ready = (new_GP2YDustSensor GP2Y1014AU0F 2 0 0 (f32_of_int 5))
                  \<lparr>minDustVoltage := Finite False (125 / 256), readCount := 11,
                   hasBaselineCandidate := True\<rparr>;
        handed = getBaselineCandidate ready;
        later = getBaselineCandidate (snd handed)
    in reachable (new_GP2YDustSensor GP2Y1014AU0F 2 0 0 (f32_of_int 5)) ready
       \<and> fst handed = Finite False (125 / 256)
       \<and> \<not> hasBaselineCandidate (snd handed)
       \<and> readCount (snd handed) = 0
       \<and> later = (Finite False (9227469 / 8388608), snd handed)
       \<and> fst later \<noteq> fst handed)"
proof -
  let ?n = "new_GP2YDustSensor GP2Y1014AU0F 2 0 0 (f32_of_int 5)"
  let ?s = "?n\<lparr>minDustVoltage := Finite False (125 / 256), readCount := 11,
               hasBaselineCandidate := True\<rparr>"
  have m: "maxZeroDustVoltage ?n = Finite False (9227469 / 8388608)"
    by (simp add: new_GP2YDustSensor_def Let_def f32_lit_consts)
  have "fst (getBaselineCandidate ?s) = Finite False (125 / 256)
        \<and> \<not> hasBaselineCandidate (snd (getBaselineCandidate ?s))
        \<and> readCount (snd (getBaselineCandidate ?s)) = 0
        \<and> getBaselineCandidate (snd (getBaselineCandidate ?s))
            = (Finite False (9227469 / 8388608), snd (getBaselineCandidate ?s))
        \<and> fst (getBaselineCandidate (snd (getBaselineCandidate ?s)))
            \<noteq> fst (getBaselineCandidate ?s)"
    by (simp add: getBaselineCandidate_eq m)
  with eleven_readings show ?thesis by (simp only: Let_def) simp
qed

text \<open>
  C4. Once the candidate flag is set, a call of \<^verbatim>\<open>getBaselineCandidate\<close> returns the
  tracked minimum \<^verbatim>\<open>minDustVoltage\<close> and resets the object: the read counter to 0, the
  flag to false, the tracked minimum to \<^verbatim>\<open>maxZeroDustVoltage\<close> (the stored candidate
  \<^verbatim>\<open>currentBaselineCandidate\<close> is set to \<^verbatim>\<open>maxZeroDustVoltage\<close> as well). It is one
  call that does so: the call after it finds the flag cleared, returns the stored value
  and changes nothing.
\<close>

theorem getBaselineCandidate_ready:
  "hasBaselineCandidate s \<Longrightarrow>
     getBaselineCandidate s =
       (minDustVoltage s,
        s\<lparr>minDustVoltage := maxZeroDustVoltage s,
           currentBaselineCandidate := maxZeroDustVoltage s,
           readCount := 0, hasBaselineCandidate := False\<rparr>)
     \<and> getBaselineCandidate (snd (getBaselineCandidate s))
         = (maxZeroDustVoltage s, snd (getBaselineCandidate s))"
  by (simp add: getBaselineCandidate_eq)

text \<open>
  A GP2Y1014AU0F after eleven readings of 0.48828125 V, an object a program reaches: the
  call returns that voltage and leaves the tracked minimum and the stored candidate at
  1.1 V, the read counter at 0 and the flag cleared, as on a new object.
\<close>

theorem getBaselineCandidate_ready_witness:
  "reachable (new_GP2YDustSensor GP2Y1014AU0F 2 0 0 (f32_of_int 5))
     ((new_GP2YDustSensor GP2Y1014AU0F 2 0 0 (f32_of_int 5))
        \<lparr>minDustVoltage := Finite False (125 / 256), readCount := 11,
         hasBaselineCandidate := True\<rparr>)
   \<and> getBaselineCandidate
       ((new_GP2YDustSensor GP2Y1014AU0F 2 0 0 (f32_of_int 5))
          \<lparr>minDustVoltage := Finite False (125 / 256), readCount := 11,
           hasBaselineCandidate := True\<rparr>)
     = (Finite False (125 / 256),
        (new_GP2YDustSensor GP2Y1014AU0F 2 0 0 (f32_of_int 5))
          \<lparr>minDustVoltage := Finite False (9227469 / 8388608),
           currentBaselineCandidate := Finite False (9227469 / 8388608)\<rparr>)"
proof -
  let ?n = "new_GP2YDustSensor GP2Y1014AU0F 2 0 0 (f32_of_int 5)"
  let ?s = "?n\<lparr>minDustVoltage := Finite False (125 / 256), readCount := 11,
               hasBaselineCandidate := True\<rparr>"
  have e: "?s\<lparr>minDustVoltage := maxZeroDustVoltage ?s,
              currentBaselineCandidate := maxZeroDustVoltage ?s,
              readCount := 0, hasBaselineCandidate := False\<rparr>
           = ?n\<lparr>minDustVoltage := Finite False (9227469 / 8388608),
                currentBaselineCandidate := Finite False (9227469 / 8388608)\<rparr>"
    by (simp add: new_GP2YDustSensor_def Let_def f32_lit_consts)
  have "hasBaselineCandidate ?s" by simp
  from getBaselineCandidate_ready [OF this]
  have "getBaselineCandidate ?s
          = (minDustVoltage ?s,
             ?s\<lparr>minDustVoltage := maxZeroDustVoltage ?s,
                currentBaselineCandidate := maxZeroDustVoltage ?s,
                readCount := 0, hasBaselineCandidate := False\<rparr>)"
    by (rule conjunct1)
  then have "getBaselineCandidate ?s
          = (Finite False (125 / 256),
             ?n\<lparr>minDustVoltage := Finite False (9227469 / 8388608),
                currentBaselineCandidate := Finite False (9227469 / 8388608)\<rparr>)"
    by (simp only: e) simp
  with eleven_readings show ?thesis by (rule conjI)
qed

subsection \<open>C5: the tracked minimum stays within the profile\<close>

text \<open>
  C5. The tracked minimum lies between \<^verbatim>\<open>minZeroDustVoltage\<close> and
  \<^verbatim>\<open>maxZeroDustVoltage\<close> after construction, and every member function keeps it there:
  \<^verbatim>\<open>getDustDensity\<close> leaves it or lowers it to a voltage strictly below it that lies
  within the two bounds, \<^verbatim>\<open>getBaselineCandidate\<close> leaves it or resets it to
  \<^verbatim>\<open>maxZeroDustVoltage\<close>, the setters and \<^verbatim>\<open>getRunningAverage\<close> do not touch it. So it
  holds on every object a program can reach.
\<close>

theorem tracked_minimum_stays_in_range:
  "tracked_in_range (new_GP2YDustSensor ty lp ap c vr)
   \<and> (tracked_in_range s \<and> getDustDensity n s hw = Some (Inr (d, s', hw')) \<longrightarrow>
        tracked_in_range s'
        \<and> minZeroDustVoltage s' = minZeroDustVoltage s
        \<and> maxZeroDustVoltage s' = maxZeroDustVoltage s
        \<and> (minDustVoltage s' = minDustVoltage s
           \<or> f32_lt (minDustVoltage s') (minDustVoltage s)
             \<and> f32_ge (minDustVoltage s') (minZeroDustVoltage s)
             \<and> f32_le (minDustVoltage s') (maxZeroDustVoltage s)))
   \<and> (tracked_in_range s \<longrightarrow>
        tracked_in_range (snd (getBaselineCandidate s))
        \<and> minZeroDustVoltage (snd (getBaselineCandidate s)) = minZeroDustVoltage s
        \<and> maxZeroDustVoltage (snd (getBaselineCandidate s)) = maxZeroDustVoltage s
        \<and> (minDustVoltage (snd (getBaselineCandidate s)) = minDustVoltage s
           \<or> minDustVoltage (snd (getBaselineCandidate s)) = maxZeroDustVoltage s))
   \<and> (tracked_in_range s \<longrightarrow>
        tracked_in_range (setBaseline v s) \<and> tracked_in_range (setSensitivity v s)
        \<and> tracked_in_range (setCalibrationFactor v s))
   \<and> (getRunningAverage r s = Inr (a, s2) \<longrightarrow> s2 = s)
   \<and> (reachable (new_GP2YDustSensor ty lp ap c vr) s \<longrightarrow> tracked_in_range s)"
proof (intro conjI impI)
  show "tracked_in_range (new_GP2YDustSensor ty lp ap c vr)"
    by (rule new_tracked_in_range)
next
  assume a: "tracked_in_range s \<and> getDustDensity n s hw = Some (Inr (d, s', hw'))"
  then show "tracked_in_range s'" using tracked_in_range_getDustDensity by blast
  from a getDustDensity_frame [of n s hw d s' hw']
  show "minZeroDustVoltage s' = minZeroDustVoltage s"
    and "maxZeroDustVoltage s' = maxZeroDustVoltage s"
    by (simp_all add: same_settings_def)
  from a tracked_getDustDensity [of n s hw d s' hw']
  show "minDustVoltage s' = minDustVoltage s
           \<or> f32_lt (minDustVoltage s') (minDustVoltage s)
             \<and> f32_ge (minDustVoltage s') (minZeroDustVoltage s)
             \<and> f32_le (minDustVoltage s') (maxZeroDustVoltage s)" by blast
next
  assume "tracked_in_range s"
  then show "tracked_in_range (snd (getBaselineCandidate s))"
    by (rule tracked_in_range_getBaselineCandidate)
next
  show "minZeroDustVoltage (snd (getBaselineCandidate s)) = minZeroDustVoltage s"
    and "maxZeroDustVoltage (snd (getBaselineCandidate s)) = maxZeroDustVoltage s"
    and "minDustVoltage (snd (getBaselineCandidate s)) = minDustVoltage s
           \<or> minDustVoltage (snd (getBaselineCandidate s)) = maxZeroDustVoltage s"
    by (simp_all add: getBaselineCandidate_eq)
next
  assume "tracked_in_range s"
  then show "tracked_in_range (setBaseline v s)" "tracked_in_range (setSensitivity v s)"
    "tracked_in_range (setCalibrationFactor v s)"
    by (simp_all add: tracked_in_range_def setBaseline_def setSensitivity_def
          setCalibrationFactor_def)
next
  assume "getRunningAverage r s = Inr (a, s2)"
  then show "s2 = s" by (rule getRunningAverage_state)
next
  assume "reachable (new_GP2YDustSensor ty lp ap c vr) s"
  then show "tracked_in_range s"
    using reachable_tracked_in_range new_tracked_in_range by blast
qed

text \<open>
  One reading with raw mean 100 on a new GP2Y1014AU0F: the tracked minimum drops from
  0.6 V to 0.48828125 V, inside 0.1 V .. 1.1 V.
\<close>

theorem tracked_minimum_stays_in_range_witness:
  "getDustDensity 20 (new_GP2YDustSensor GP2Y1014AU0F 2 0 3 (f32_of_int 5)) (steady_board 100)
     = Some (Inr (0,
          (new_GP2YDustSensor GP2Y1014AU0F 2 0 3 (f32_of_int 5))
             \<lparr>minDustVoltage := Finite False (125 / 256), readCount := 1,
              runningAverageBuffer := [0, - 1, - 1], nextRunningAverageCounter := 1\<rparr>,
          board_after (new_GP2YDustSensor GP2Y1014AU0F 2 0 3 (f32_of_int 5)) 20 (steady_board 100)))
   \<and> tracked_in_range
        ((new_GP2YDustSensor GP2Y1014AU0F 2 0 3 (f32_of_int 5))
             \<lparr>minDustVoltage := Finite False (125 / 256), readCount := 1,
              runningAverageBuffer := [0, - 1, - 1], nextRunningAverageCounter := 1\<rparr>)"
proof -
  let ?s = "new_GP2YDustSensor GP2Y1014AU0F 2 0 3 (f32_of_int 5)"
  let ?s' = "?s\<lparr>minDustVoltage := Finite False (125 / 256), readCount := 1,
              runningAverageBuffer := [0, - 1, - 1], nextRunningAverageCounter := 1\<rparr>"
  have "getDustDensity_rest 20 2000 ?s = Inr (0, ?s')"
    by code_simp
  then have g: "getDustDensity 20 ?s (steady_board 100)
                 = Some (Inr (0, ?s', board_after ?s 20 (steady_board 100)))"
    by (simp add: getDustDensity_steady_20)
  have t: "tracked_in_range ?s" by (rule new_tracked_in_range)
  from tracked_minimum_stays_in_range
         [of GP2Y1014AU0F 2 0 3 "f32_of_int 5" ?s 20 "steady_board 100" 0 ?s'
             "board_after ?s 20 (steady_board 100)"] t g
  have "tracked_in_range ?s'" by blast
  with g show ?thesis by simp
qed

subsection \<open>C6: the density floor\<close>

text \<open>
  C6. For every scaled voltage at most the current baseline, and positive sensitivity,
  \<^verbatim>\<open>getDustDensity\<close> returns exactly 0: below the baseline the code returns 0 directly,
  and a voltage equal to the baseline gives \<open>0 / sensitivity * 100 = 0\<close>. That covers every
  finite voltage, with a finite or an infinite baseline, and the voltage \<open>-\<infinity>\<close> below a
  baseline that is not \<open>-\<infinity>\<close>. The last hypothesis leaves out one case only, a voltage
  and a baseline that are the same infinity, where the difference is NaN and C++ gives
  its conversion to \<^verbatim>\<open>uint16_t\<close> no meaning (\<open>dustDensityOf_same_infinity\<close>); the
  baseline is infinite only after \<^verbatim>\<open>setBaseline\<close> with an infinite argument, and with a
  finite baseline the hypothesis holds. The other hypotheses say that the sampling loop
  has returned the total \<open>tot\<close> and that the window has the shape every reachable object
  has.
\<close>

theorem density_floor:
  "getDustDensity_loop s n 0 0 hw = Some (tot, hw') \<Longrightarrow> n \<noteq> 0 \<Longrightarrow> window_ok s \<Longrightarrow>
   f32_le (scaledVoltage s (ucast (tot div ucast n))) (zeroDustVoltage s) \<Longrightarrow>
   f32_lt (f32_of_int 0) (sensitivity s) \<Longrightarrow>
   is_finite (scaledVoltage s (ucast (tot div ucast n)))
     \<or> scaledVoltage s (ucast (tot div ucast n)) \<noteq> zeroDustVoltage s \<Longrightarrow>
   \<exists>s'. getDustDensity n s hw = Some (Inr (0, s', hw'))"
  by (erule getDustDensity_returns, assumption, assumption, rule dustDensityOf_floor)

text \<open>
  A baseline set to 0.48828125 V and raw mean 100, whose scaled voltage is exactly that:
  the result is 0. And a calibration factor of \<open>-\<infinity>\<close> with the typical baseline of 0.6 V:
  the scaled voltage is \<open>-\<infinity>\<close>, and the result is 0 as well.
\<close>

theorem density_floor_witness:
  "scaledVoltage (setBaseline (Finite False (125 / 256))
       (new_GP2YDustSensor GP2Y1014AU0F 2 0 60 (f32_of_int 5))) 100 = Finite False (125 / 256)
   \<and> (\<exists>s'. getDustDensity 20
         (setBaseline (Finite False (125 / 256))
            (new_GP2YDustSensor GP2Y1014AU0F 2 0 60 (f32_of_int 5)))
         (steady_board 100)
       = Some (Inr (0, s', board_after (setBaseline (Finite False (125 / 256))
            (new_GP2YDustSensor GP2Y1014AU0F 2 0 60 (f32_of_int 5))) 20 (steady_board 100))))
   \<and> scaledVoltage (setCalibrationFactor (Infinity True)
       (new_GP2YDustSensor GP2Y1014AU0F 2 0 60 (f32_of_int 5))) 100 = Infinity True
   \<and> (\<exists>s'. getDustDensity 20
         (setCalibrationFactor (Infinity True)
            (new_GP2YDustSensor GP2Y1014AU0F 2 0 60 (f32_of_int 5)))
         (steady_board 100)
       = Some (Inr (0, s', board_after (setCalibrationFactor (Infinity True)
            (new_GP2YDustSensor GP2Y1014AU0F 2 0 60 (f32_of_int 5))) 20 (steady_board 100))))"
proof -
  let ?s = "setBaseline (Finite False (125 / 256))
              (new_GP2YDustSensor GP2Y1014AU0F 2 0 60 (f32_of_int 5))"
  let ?t = "setCalibrationFactor (Infinity True)
              (new_GP2YDustSensor GP2Y1014AU0F 2 0 60 (f32_of_int 5))"
  have avg: "(ucast ((2000 :: 32 word) div ucast (20 :: 16 word)) :: 16 word) = 100"
    by simp
  have loop: "getDustDensity_loop ?s 20 0 0 (steady_board 100)
                = Some (2000, board_after ?s 20 (steady_board 100))"
    using getDustDensity_loop_steady_20 [of ?s 100] by simp
  have v: "scaledVoltage ?s 100 = Finite False (125 / 256)"
    by code_simp
  have z: "zeroDustVoltage ?s = Finite False (125 / 256)"
    by (simp add: setBaseline_def)
  have sens: "f32_lt (f32_of_int 0) (sensitivity ?s)"
    by code_simp
  have ok: "window_ok ?s"
    by (simp add: window_ok_def setBaseline_def new_GP2YDustSensor_def Let_def)
  have 1: "\<exists>s'. getDustDensity 20 ?s (steady_board 100)
          = Some (Inr (0, s', board_after ?s 20 (steady_board 100)))"
    by (rule density_floor [OF loop _ ok]) (simp_all only: avg v z sens, simp_all add: sval_def)
  have loop': "getDustDensity_loop ?t 20 0 0 (steady_board 100)
                = Some (2000, board_after ?t 20 (steady_board 100))"
    using getDustDensity_loop_steady_20 [of ?t 100] by simp
  have v': "scaledVoltage ?t 100 = Infinity True"
    by code_simp
  have z': "zeroDustVoltage ?t = Finite False (5033165 / 8388608)"
    by (simp add: setCalibrationFactor_def new_GP2YDustSensor_def Let_def f32_lit_consts_normal)
  have sens': "f32_lt (f32_of_int 0) (sensitivity ?t)"
    by code_simp
  have ok': "window_ok ?t"
    by (simp add: window_ok_def setCalibrationFactor_def new_GP2YDustSensor_def Let_def)
  have 2: "\<exists>s'. getDustDensity 20 ?t (steady_board 100)
          = Some (Inr (0, s', board_after ?t 20 (steady_board 100)))"
    by (rule density_floor [OF loop' _ ok']) (simp_all only: avg v' z' sens', simp_all)
  from v 1 v' 2 show ?thesis by (intro conjI)
qed

subsection \<open>C7: the ring\<close>

text \<open>
  C7 (amended). The claim: with capacity \<open>c \<ge> 1\<close>, after \<open>c + 1\<close> pushes the first pushed
  value no longer contributes, and the reported average is the rounded mean of the most
  recent \<open>c\<close> values. After the pushes \<open>v0 # vs\<close> with \<open>vs\<close> of length \<open>c\<close>, whatever
  the window held before, the ring holds exactly \<open>vs\<close> (oldest at the write position),
  so neither \<open>v0\<close> nor anything older is left in the buffer. When the values of \<open>vs\<close> are
  at most 32767, each of them contributes itself and the result is \<^verbatim>\<open>round\<close> of their
  float mean: their float sum, taken in buffer order, divided by \<open>c\<close>; that float sum is
  their exact sum when the latter is at most \<open>2\<^sup>2\<^sup>4\<close>.
\<close>

theorem running_average_ring:
  "window_ok s \<Longrightarrow> runningAverageCount s = int (length vs) \<Longrightarrow> vs \<noteq> [] \<Longrightarrow>
   \<exists>s'. pushAll (v0 # vs) s = Inr s' \<and> window_ok s' \<and> window s' = vs
        \<and> runningAverageBuffer s'
            = rotate (length vs - nat (nextRunningAverageCounter s')) vs
        \<and> ((\<forall>v\<in>set vs. uint v \<le> 32767) \<longrightarrow>
             contributions (runningAverageBuffer s') = map uint (runningAverageBuffer s')
             \<and> getRunningAverage r s'
                 = (case r (f32_div (float_sum (runningAverageBuffer s'))
                                    (f32_of_int (int (length vs)))) of
                      Inl e \<Rightarrow> Inl e
                    | Inr a \<Rightarrow> Inr (a, s'))
             \<and> (sum_list (map uint vs) \<le> 2 ^ 24 \<longrightarrow>
                  float_sum (runningAverageBuffer s') = f32_of_int (sum_list (map uint vs))))"
proof -
  assume ok: "window_ok s" and c: "runningAverageCount s = int (length vs)" and ne: "vs \<noteq> []"
  from c ne have c0: "runningAverageCount s \<noteq> 0" by simp
  from ok c have lb: "length (runningAverageBuffer s) = length vs" by (simp add: window_ok_def)
  from pushAll_window [OF ok c0, of "v0 # vs"] obtain s' where
    p: "pushAll (v0 # vs) s = Inr s'" and ok': "window_ok s'"
    and c': "runningAverageCount s' = runningAverageCount s"
    and w: "window s' = drop (length (v0 # vs)) (window s @ v0 # vs)" by blast
  from w lb have w': "window s' = vs" by simp
  from c' c0 have c0': "runningAverageCount s' \<noteq> 0" by simp
  from ok' c' c have lb': "length (runningAverageBuffer s') = length vs"
    by (simp add: window_ok_def)
  let ?m = "length vs - nat (nextRunningAverageCounter s')"
  from buffer_of_window [OF ok' c0'] have b': "runningAverageBuffer s' = rotate ?m vs"
    by (simp add: lb' w')
  have small: "contributions (runningAverageBuffer s') = map uint (runningAverageBuffer s')
             \<and> getRunningAverage r s'
                 = (case r (f32_div (float_sum (runningAverageBuffer s'))
                                    (f32_of_int (int (length vs)))) of
                      Inl e \<Rightarrow> Inl e
                    | Inr a \<Rightarrow> Inr (a, s'))
             \<and> (sum_list (map uint vs) \<le> 2 ^ 24 \<longrightarrow>
                  float_sum (runningAverageBuffer s') = f32_of_int (sum_list (map uint vs)))"
    if small: "\<forall>v\<in>set vs. uint v \<le> 32767"
  proof (intro conjI impI)
    from small have small': "\<forall>v\<in>set (rotate ?m vs). uint v \<le> 32767" by simp
    show xs: "contributions (runningAverageBuffer s') = map uint (runningAverageBuffer s')"
      by (subst (1 2) b') (rule contributions_small [OF small'])
    from ne lb' have "map uint (runningAverageBuffer s') \<noteq> []" by auto
    then show "getRunningAverage r s'
                 = (case r (f32_div (float_sum (runningAverageBuffer s'))
                                    (f32_of_int (int (length vs)))) of
                      Inl e \<Rightarrow> Inl e
                    | Inr a \<Rightarrow> Inr (a, s'))"
      by (simp only: getRunningAverage_eq [OF ok' c0'] xs if_False length_map lb')
    assume sum: "sum_list (map uint vs) \<le> 2 ^ 24"
    have sm: "sum_list (map uint (rotate ?m vs)) = sum_list (map uint vs)"
      by (simp add: rotate_map [symmetric] sum_list_rotate)
    have nn: "0 \<le> sum_list (map uint vs)" by (rule sum_list_nonneg) auto
    have "foldl f32_add (Finite False (of_int 0)) (map f32_of_int (map uint (rotate ?m vs)))
            = Finite False (of_int (0 + sum_list (map uint (rotate ?m vs))))"
      using sum by (intro foldl_f32_add_exact) (simp_all add: sm)
    then have "foldl f32_add (f32_of_int 0) (map f32_of_int (map uint (rotate ?m vs)))
            = f32_of_int (sum_list (map uint vs))"
      using nn sum by (simp add: sm f32_of_int_exact)
    then show "float_sum (runningAverageBuffer s') = f32_of_int (sum_list (map uint vs))"
      unfolding float_sum_def xs by (subst b')
  qed
  from p ok' w' b' small show ?thesis by blast
qed

text \<open>
  Capacity 3 and the pushes 7, 10, 20, 30: the buffer is \<open>[30, 10, 20]\<close>, the sum 60 and
  the average handed to \<^verbatim>\<open>round\<close> is 20.
\<close>

theorem running_average_ring_witness:
  "\<forall>r. \<exists>s'. pushAll [7, 10, 20, 30] (new_GP2YDustSensor GP2Y1014AU0F 2 0 3 (f32_of_int 5)) = Inr s'
          \<and> runningAverageBuffer s' = [30, 10, 20]
          \<and> float_sum (runningAverageBuffer s') = Finite False 60
          \<and> getRunningAverage r s'
              = (case r (Finite False 20) of Inl e \<Rightarrow> Inl e | Inr a \<Rightarrow> Inr (a, s'))"
proof
  fix r
  let ?s = "new_GP2YDustSensor GP2Y1014AU0F 2 0 3 (f32_of_int 5)"
  have ok: "window_ok ?s" by (rule new_window_ok)
  have c: "runningAverageCount ?s = int (length [10, 20, 30 :: 16 word])"
    by (simp add: new_GP2YDustSensor_def Let_def)
  have f: "f32_of_int (sum_list (map uint [10, 20, 30 :: 16 word])) = Finite False 60"
    by code_simp
  have q: "f32_div (Finite False 60) (f32_of_int (int (length [10, 20, 30 :: 16 word])))
             = Finite False 20"
    by code_simp
  have small: "\<forall>v\<in>set [10, 20, 30 :: 16 word]. uint v \<le> 32767"
    and sum: "sum_list (map uint [10, 20, 30 :: 16 word]) \<le> 2 ^ 24"
    by simp_all
  have push: "pushAll [7, 10, 20, 30] ?s
          = Inr (?s\<lparr>runningAverageBuffer := [30, 10, 20], nextRunningAverageCounter := 1\<rparr>)"
    by code_simp
  from running_average_ring [OF ok c, of 7 r] small sum obtain s' where
    p: "pushAll [7, 10, 20, 30] ?s = Inr s'"
    and a: "getRunningAverage r s'
              = (case r (f32_div (float_sum (runningAverageBuffer s'))
                           (f32_of_int (int (length [10, 20, 30 :: 16 word])))) of
                   Inl e \<Rightarrow> Inl e
                 | Inr a \<Rightarrow> Inr (a, s'))"
    and e: "float_sum (runningAverageBuffer s')
              = f32_of_int (sum_list (map uint [10, 20, 30 :: 16 word]))"
    by auto
  from p push have b: "runningAverageBuffer s' = [30, 10, 20]" by simp
  from e f have e': "float_sum (runningAverageBuffer s') = Finite False 60" by (simp only:)
  from a have "getRunningAverage r s'
              = (case r (Finite False 20) of Inl e \<Rightarrow> Inl e | Inr a \<Rightarrow> Inr (a, s'))"
    by (simp only: e' q)
  with p b e' show "\<exists>s'. pushAll [7, 10, 20, 30] ?s = Inr s'
          \<and> runningAverageBuffer s' = [30, 10, 20]
          \<and> float_sum (runningAverageBuffer s') = Finite False 60
          \<and> getRunningAverage r s'
              = (case r (Finite False 20) of Inl e \<Rightarrow> Inl e | Inr a \<Rightarrow> Inr (a, s'))"
    by blast
qed

text \<open>
  As stated, for all values, C7 fails: with capacity 2 and the pushes 7, 65535, 65535 the
  two most recent values have mean 65535, and \<^verbatim>\<open>getRunningAverage\<close> reports 0, both
  slots reading -1 (see C10).
\<close>

theorem running_average_ring_counterexample:
  "\<exists>s'. pushAll [7, 65535, 65535] (new_GP2YDustSensor GP2Y1014AU0F 2 0 2 (f32_of_int 5)) = Inr s'
        \<and> runningAverageBuffer s' = [65535, 65535]
        \<and> sum_list (map uint [65535, 65535 :: 16 word]) div 2 = 65535
        \<and> (\<forall>r. getRunningAverage r s' = Inr (0, s'))
        \<and> (0 :: 16 word) \<noteq> 65535"
proof -
  let ?s = "new_GP2YDustSensor GP2Y1014AU0F 2 0 2 (f32_of_int 5)"
  let ?s' = "?s\<lparr>runningAverageBuffer := [65535, 65535], nextRunningAverageCounter := 1\<rparr>"
  have p: "pushAll [7, 65535, 65535] ?s = Inr ?s'"
    by code_simp
  have "getRunningAverage r ?s' = Inr (0, ?s')" for r
    by (simp add: getRunningAverage_def averageStep_def new_GP2YDustSensor_def Let_def)
  with p show ?thesis by simp
qed

subsection \<open>C8: setBaseline and getBaseline\<close>

text \<open>
  C8. For every float \<open>v\<close>, whatever its value (outside the profile's range, infinite or
  NaN), \<^verbatim>\<open>setBaseline(v)\<close> stores \<open>v\<close> unchecked: \<^verbatim>\<open>getBaseline()\<close> then returns \<open>v\<close>,
  and the object differs from the one before in the field \<^verbatim>\<open>zeroDustVoltage\<close> only.
\<close>

theorem setBaseline_getBaseline:
  "getBaseline (setBaseline v s) = v \<and> setBaseline v s = s\<lparr>zeroDustVoltage := v\<rparr>"
  by (simp add: getBaseline_def setBaseline_def)

subsection \<open>C9: the running average when it is disabled\<close>

text \<open>
  C9. On an object constructed with running average capacity 0, after any calls of the
  member functions, \<^verbatim>\<open>getRunningAverage\<close> returns 65535 (the \<^verbatim>\<open>-1\<close> of the source as a
  \<^verbatim>\<open>uint16_t\<close>), no error, and leaves the object unchanged.
\<close>

theorem getRunningAverage_disabled:
  "reachable (new_GP2YDustSensor ty lp ap 0 vr) s \<Longrightarrow>
     getRunningAverage r s = Inr (65535, s)"
proof -
  assume "reachable (new_GP2YDustSensor ty lp ap 0 vr) s"
  from reachable_count [OF this] have "runningAverageCount s = 0"
    by (simp add: new_GP2YDustSensor_def Let_def)
  then show ?thesis by (simp add: getRunningAverage_def)
qed

text \<open>
  Capacity 0, after a call of \<^verbatim>\<open>setBaseline\<close>.
\<close>

theorem getRunningAverage_disabled_witness:
  "\<forall>r. getRunningAverage r
         (setBaseline (Finite False (1 / 2)) (new_GP2YDustSensor GP2Y1014AU0F 2 0 0 (f32_of_int 5)))
       = Inr (65535,
           setBaseline (Finite False (1 / 2)) (new_GP2YDustSensor GP2Y1014AU0F 2 0 0 (f32_of_int 5)))"
proof
  fix r
  have "reachable (new_GP2YDustSensor GP2Y1014AU0F 2 0 0 (f32_of_int 5))
          (setBaseline (Finite False (1 / 2)) (new_GP2YDustSensor GP2Y1014AU0F 2 0 0 (f32_of_int 5)))"
    by (intro reach_setBaseline reach_start)
  from getRunningAverage_disabled [OF this]
  show "getRunningAverage r
         (setBaseline (Finite False (1 / 2)) (new_GP2YDustSensor GP2Y1014AU0F 2 0 0 (f32_of_int 5)))
       = Inr (65535,
           setBaseline (Finite False (1 / 2)) (new_GP2YDustSensor GP2Y1014AU0F 2 0 0 (f32_of_int 5)))" .
qed

subsection \<open>C10: values that do not fit the slots\<close>

text \<open>
  C10. \<^verbatim>\<open>updateRunningAverage\<close> stores the sixteen bits of the pushed \<^verbatim>\<open>uint16_t\<close> in an
  \<^verbatim>\<open>int16_t\<close> slot, and \<^verbatim>\<open>getRunningAverage\<close> is computed from the contributions of
  the buffer alone: their float sum, divided by their number. A slot holding a pushed
  65535 reads -1 and contributes nothing, neither to the sum nor to the divisor; a slot
  holding a pushed value below 32768 contributes that value; a slot holding a pushed
  value from 32768 to 65534 contributes the negative number \<open>v - 65536\<close>.
\<close>

theorem sentinel_and_negative_slots:
  "(window_ok s \<and> runningAverageCount s \<noteq> 0 \<longrightarrow>
      (\<exists>s'. updateRunningAverage v s = Inr s'
         \<and> runningAverageBuffer s'
             = (runningAverageBuffer s)[nat (nextRunningAverageCounter s) := v]
         \<and> getRunningAverage r s'
             = (if contributions (runningAverageBuffer s') = [] then Inr (0, s')
                else case r (f32_div (float_sum (runningAverageBuffer s'))
                               (f32_of_int (int (length (contributions (runningAverageBuffer s')))))) of
                       Inl e \<Rightarrow> Inl e
                     | Inr a \<Rightarrow> Inr (a, s'))))
   \<and> contributions (before @ v # after)
       = contributions before
         @ (if v = 65535 then []
            else if uint v < 32768 then [uint v] else [uint v - 65536])
         @ contributions after
   \<and> (32768 \<le> uint v \<and> uint v \<le> 65534 \<longrightarrow>
        sint v = uint v - 65536 \<and> sint v < - 1
        \<and> f32_of_int (sint v) = Finite True (of_int (65536 - uint v)))"
proof (intro conjI impI)
  assume a: "window_ok s \<and> runningAverageCount s \<noteq> 0"
  then have ok: "window_ok s" and c0: "runningAverageCount s \<noteq> 0" by simp_all
  let ?s' = "s\<lparr>runningAverageBuffer :=
               (runningAverageBuffer s)[nat (nextRunningAverageCounter s) := v],
            nextRunningAverageCounter :=
               (if runningAverageCount s \<le> nextRunningAverageCounter s + 1 then 0
                else nextRunningAverageCounter s + 1)\<rparr>"
  have u: "updateRunningAverage v s = Inr ?s'" by (rule updateRunningAverage_eq [OF ok c0])
  from window_ok_update [OF ok c0 u] c0 have "window_ok ?s'" "runningAverageCount ?s' \<noteq> 0"
    by simp_all
  from getRunningAverage_eq [OF this, of r] u
  show "\<exists>s'. updateRunningAverage v s = Inr s'
         \<and> runningAverageBuffer s'
             = (runningAverageBuffer s)[nat (nextRunningAverageCounter s) := v]
         \<and> getRunningAverage r s'
             = (if contributions (runningAverageBuffer s') = [] then Inr (0, s')
                else case r (f32_div (float_sum (runningAverageBuffer s'))
                               (f32_of_int (int (length (contributions (runningAverageBuffer s')))))) of
                       Inl e \<Rightarrow> Inl e
                     | Inr a \<Rightarrow> Inr (a, s'))"
    by (intro exI [of _ ?s']) simp
next
  have "(sint v = - 1) = (v = 65535)"
  proof
    assume "sint v = - 1"
    then have "sint v = sint (- 1 :: 16 word)" by simp
    then have "v = - 1" by (rule signed_word_eqI)
    then show "v = 65535" by simp
  next
    assume "v = 65535"
    then show "sint v = - 1" by simp
  qed
  then show "contributions (before @ v # after)
       = contributions before
         @ (if v = 65535 then []
            else if uint v < 32768 then [uint v] else [uint v - 65536])
         @ contributions after"
    using sint_16_cases [of v] by (simp add: contributions_Cons)
next
  assume r: "32768 \<le> uint v \<and> uint v \<le> 65534"
  then show s: "sint v = uint v - 65536" by (simp add: sint_16_cases)
  with r show "sint v < - 1" by simp
  from r s have "\<bar>sint v\<bar> = 65536 - uint v" "sint v < 0" "\<bar>sint v\<bar> \<le> 2 ^ 24" by simp_all
  then show "f32_of_int (sint v) = Finite True (of_int (65536 - uint v))"
    using f32_of_int_exact [of "sint v"] by simp
qed

text \<open>
  A window \<open>[10, 65535, empty]\<close> and a push of 40000: the contributions are 10 and -25536,
  their sum is -25526 and the average handed to \<^verbatim>\<open>round\<close> is -12763.
\<close>

theorem sentinel_and_negative_slots_witness:
  "\<forall>r. \<exists>s'. updateRunningAverage 40000
               ((new_GP2YDustSensor GP2Y1014AU0F 2 0 3 (f32_of_int 5))
                  \<lparr>runningAverageBuffer := [10, 65535, - 1], nextRunningAverageCounter := 2\<rparr>)
             = Inr s'
          \<and> runningAverageBuffer s' = [10, 65535, 40000]
          \<and> contributions [10, 65535, 40000] = [10, - 25536]
          \<and> float_sum [10, 65535, 40000] = Finite True 25526
          \<and> getRunningAverage r s'
              = (case r (Finite True 12763) of Inl e \<Rightarrow> Inl e | Inr a \<Rightarrow> Inr (a, s'))"
proof
  fix r
  let ?s = "(new_GP2YDustSensor GP2Y1014AU0F 2 0 3 (f32_of_int 5))
              \<lparr>runningAverageBuffer := [10, 65535, - 1], nextRunningAverageCounter := 2\<rparr>"
  have ok: "window_ok ?s \<and> runningAverageCount ?s \<noteq> 0"
    by (simp add: window_ok_def new_GP2YDustSensor_def Let_def)
  have c: "contributions [10, 65535, 40000] = [10, - 25536]"
    by (simp add: contributions_def)
  have f: "float_sum [10, 65535, 40000] = Finite True 25526"
    unfolding float_sum_def c by code_simp
  have q: "f32_div (Finite True 25526) (f32_of_int (int (length [10, - 25536 :: int])))
             = Finite True 12763"
    by code_simp
  have b: "(runningAverageBuffer ?s)[nat (nextRunningAverageCounter ?s) := 40000]
             = [10, 65535, 40000]"
    by simp
  from sentinel_and_negative_slots [of ?s 40000 r "[]" "[]"] ok
  obtain s' where "updateRunningAverage 40000 ?s = Inr s'"
    and "runningAverageBuffer s'
           = (runningAverageBuffer ?s)[nat (nextRunningAverageCounter ?s) := 40000]"
    and "getRunningAverage r s'
           = (if contributions (runningAverageBuffer s') = [] then Inr (0, s')
              else case r (f32_div (float_sum (runningAverageBuffer s'))
                             (f32_of_int (int (length (contributions (runningAverageBuffer s')))))) of
                     Inl e \<Rightarrow> Inl e
                   | Inr a \<Rightarrow> Inr (a, s'))"
    by blast
  then show "\<exists>s'. updateRunningAverage 40000 ?s = Inr s'
          \<and> runningAverageBuffer s' = [10, 65535, 40000]
          \<and> contributions [10, 65535, 40000] = [10, - 25536]
          \<and> float_sum [10, 65535, 40000] = Finite True 25526
          \<and> getRunningAverage r s'
              = (case r (Finite True 12763) of Inl e \<Rightarrow> Inl e | Inr a \<Rightarrow> Inr (a, s'))"
    by (intro exI [of _ s']) (simp only: b c f q, simp)
qed

section \<open>Further properties of the code\<close>

text \<open>
  For 1 to 255 samples the sampling loop does what C1 says: it returns, having made
  exactly \<open>n\<close> conversions and waited \<open>9900 n\<close> microseconds in \<^verbatim>\<open>delayMicroseconds\<close>
  (the conversions themselves, about 100 microseconds each, come on top).
\<close>

theorem getDustDensity_loop_samples:
  "1 \<le> uint n \<and> uint n \<le> 255 \<longrightarrow>
     getDustDensity_loop s n 0 0 hw =
       Some (sum_list (map ucast (sampled (unat n) hw)), board_after s (unat n) hw)
     \<and> length (sampled (unat n) hw) = unat n
     \<and> adc_reads (board_after s (unat n) hw) = adc_reads hw + unat n
     \<and> elapsed_us (board_after s (unat n) hw) = elapsed_us hw + 9900 * unat n"
proof
  assume n: "1 \<le> uint n \<and> uint n \<le> 255"
  then have "uint (0 :: 8 word) + int (unat n) = uint n" by simp
  from getDustDensity_loop_result [OF this, of s 0 hw] n
  show "getDustDensity_loop s n 0 0 hw =
       Some (sum_list (map ucast (sampled (unat n) hw)), board_after s (unat n) hw)
     \<and> length (sampled (unat n) hw) = unat n
     \<and> adc_reads (board_after s (unat n) hw) = adc_reads hw + unat n
     \<and> elapsed_us (board_after s (unat n) hw) = elapsed_us hw + 9900 * unat n"
    by (simp add: sampled_def board_after_def)
qed

text \<open>
  20 samples of 400: the total is 8000, after 20 conversions and 198000 microseconds.
\<close>

theorem getDustDensity_loop_samples_witness:
  "getDustDensity_loop (new_GP2YDustSensor GP2Y1014AU0F 2 0 60 (f32_of_int 5)) 20 0 0
      (steady_board 400)
     = Some (8000, \<lparr>pin_level = ((\<lambda>pin. True)(2 := True)), elapsed_us = 198000,
                     adc_reads = 20, adc_input = (\<lambda>k. 400)\<rparr>)"
proof -
  have "sum_list (map ucast (sampled 20 (steady_board 400))) = (8000 :: 32 word)"
    by (simp add: sampled_def steady_board_def upt_rec [of _ "numeral n" for n])
  moreover have "ledOutputPin (new_GP2YDustSensor GP2Y1014AU0F 2 0 60 (f32_of_int 5)) = 2"
    by (simp add: new_GP2YDustSensor_def Let_def)
  ultimately show ?thesis
    using getDustDensity_loop_samples
      [of 20 "new_GP2YDustSensor GP2Y1014AU0F 2 0 60 (f32_of_int 5)" "steady_board 400"]
    by (simp add: board_after_def steady_board_def)
qed

text \<open>
  While the candidate flag is not set, \<^verbatim>\<open>getBaselineCandidate\<close> returns the stored
  \<^verbatim>\<open>currentBaselineCandidate\<close> and leaves the object as it is, so any number \<open>k\<close> of
  such calls in a row is followed by a call that returns the same value again. On every
  object a program can reach from the constructor, the flag is not set exactly when at
  most \<^verbatim>\<open>BASELINE_CANDIDATE_MIN_READINGS\<close> (10) readings have been counted since the last
  reset.
\<close>

theorem getBaselineCandidate_not_ready:
  "(\<not> hasBaselineCandidate s \<longrightarrow>
      getBaselineCandidate s = (currentBaselineCandidate s, s)
      \<and> getBaselineCandidate (((snd \<circ> getBaselineCandidate) ^^ k) s)
          = (currentBaselineCandidate s, s))
   \<and> (reachable (new_GP2YDustSensor ty lp ap c vr) s \<longrightarrow>
        hasBaselineCandidate s = (uint BASELINE_CANDIDATE_MIN_READINGS < uint (readCount s)))"
proof (intro conjI impI)
  assume "\<not> hasBaselineCandidate s"
  then show "getBaselineCandidate s = (currentBaselineCandidate s, s)"
    by (simp add: getBaselineCandidate_eq)
next
  assume "\<not> hasBaselineCandidate s"
  then show "getBaselineCandidate (((snd \<circ> getBaselineCandidate) ^^ k) s)
               = (currentBaselineCandidate s, s)"
    by (simp add: getBaselineCandidate_repeat getBaselineCandidate_eq)
next
  assume "reachable (new_GP2YDustSensor ty lp ap c vr) s"
  from reachable_flag_counts [OF this new_flag_counts]
  show "hasBaselineCandidate s = (uint BASELINE_CANDIDATE_MIN_READINGS < uint (readCount s))"
    by (simp add: flag_counts_def BASELINE_CANDIDATE_MIN_READINGS_def)
qed

text \<open>
  Three calls on a new GP2Y1014AU0F, then a fourth: the typical 0.6 V, object unchanged.
\<close>

theorem getBaselineCandidate_not_ready_witness:
  "getBaselineCandidate (((snd \<circ> getBaselineCandidate) ^^ 3)
       (new_GP2YDustSensor GP2Y1014AU0F 2 0 60 (f32_of_int 5)))
     = (Finite False (5033165 / 8388608), new_GP2YDustSensor GP2Y1014AU0F 2 0 60 (f32_of_int 5))
   \<and> hasBaselineCandidate (new_GP2YDustSensor GP2Y1014AU0F 2 0 60 (f32_of_int 5))
       = (uint BASELINE_CANDIDATE_MIN_READINGS
            < uint (readCount (new_GP2YDustSensor GP2Y1014AU0F 2 0 60 (f32_of_int 5))))"
proof -
  let ?s = "new_GP2YDustSensor GP2Y1014AU0F 2 0 60 (f32_of_int 5)"
  have f: "\<not> hasBaselineCandidate ?s" by (simp add: new_GP2YDustSensor_def Let_def)
  have c: "currentBaselineCandidate ?s = Finite False (5033165 / 8388608)"
    by (simp add: new_GP2YDustSensor_def Let_def f32_lit_consts_normal)
  have r: "reachable ?s ?s" by (rule reach_start)
  from getBaselineCandidate_not_ready [of ?s 3 GP2Y1014AU0F 2 0 60 "f32_of_int 5"] f c r
  show ?thesis by simp
qed

text \<open>
  The value that \<^verbatim>\<open>getBaselineCandidate\<close> returns while no candidate is ready is the
  typical zero dust voltage until the first candidate has been handed out, and the
  maximal zero dust voltage from then on: the candidate handed out is not kept.
\<close>

theorem stored_candidate_values:
  "reachable (new_GP2YDustSensor ty lp ap c vr) s \<Longrightarrow>
     currentBaselineCandidate s = typZeroDustVoltage s
     \<or> currentBaselineCandidate s = maxZeroDustVoltage s"
proof -
  assume "reachable (new_GP2YDustSensor ty lp ap c vr) s"
  from reachable_same_settings [OF this] show ?thesis
    by (auto simp: new_GP2YDustSensor_def Let_def)
qed

text \<open>
  After the eleven readings of 0.48828125 V and the call that hands that candidate out,
  the stored value is 1.1 V.
\<close>

theorem stored_candidate_values_witness:
  "currentBaselineCandidate
     (snd (getBaselineCandidate
        ((new_GP2YDustSensor GP2Y1014AU0F 2 0 0 (f32_of_int 5))
           \<lparr>minDustVoltage := Finite False (125 / 256), readCount := 11,
            hasBaselineCandidate := True\<rparr>)))
   = Finite False (9227469 / 8388608)
   \<and> fst (getBaselineCandidate
        ((new_GP2YDustSensor GP2Y1014AU0F 2 0 0 (f32_of_int 5))
           \<lparr>minDustVoltage := Finite False (125 / 256), readCount := 11,
            hasBaselineCandidate := True\<rparr>))
     = Finite False (125 / 256)"
proof -
  let ?n = "new_GP2YDustSensor GP2Y1014AU0F 2 0 0 (f32_of_int 5)"
  let ?s = "?n\<lparr>minDustVoltage := Finite False (125 / 256), readCount := 11,
               hasBaselineCandidate := True\<rparr>"
  have t: "typZeroDustVoltage ?n = Finite False (5033165 / 8388608)"
    and m: "maxZeroDustVoltage ?n = Finite False (9227469 / 8388608)"
    by (simp_all add: new_GP2YDustSensor_def Let_def f32_lit_consts f32_lit_consts_normal)
  have "reachable ?n (snd (getBaselineCandidate ?s))"
    by (intro reach_getBaselineCandidate eleven_readings)
  from stored_candidate_values [OF this]
  have "currentBaselineCandidate (snd (getBaselineCandidate ?s)) = Finite False (9227469 / 8388608)"
    by (simp add: getBaselineCandidate_eq t m)
  then show ?thesis by (simp add: getBaselineCandidate_eq)
qed

text \<open>
  A window in which nothing has been pushed yet reports the average 0.
\<close>

theorem getRunningAverage_cold_start:
  "c \<noteq> 0 \<Longrightarrow>
     getRunningAverage r (new_GP2YDustSensor ty lp ap c vr)
       = Inr (0, new_GP2YDustSensor ty lp ap c vr)"
proof -
  assume "c \<noteq> 0"
  then have "uint c \<noteq> 0" by (simp add: uint_0_iff)
  then have c: "runningAverageCount (new_GP2YDustSensor ty lp ap c vr) \<noteq> 0"
    by (simp add: new_GP2YDustSensor_def Let_def)
  have b: "runningAverageBuffer (new_GP2YDustSensor ty lp ap c vr) = replicate (unat c) (- 1)"
    by (simp add: new_GP2YDustSensor_def Let_def)
  show ?thesis
    by (simp add: getRunningAverage_eq [OF new_window_ok c] b contributions_replicate_empty)
qed

theorem getRunningAverage_cold_start_witness:
  "\<forall>r. getRunningAverage r (new_GP2YDustSensor GP2Y1014AU0F 2 0 60 (f32_of_int 5))
       = Inr (0, new_GP2YDustSensor GP2Y1014AU0F 2 0 60 (f32_of_int 5))"
  using getRunningAverage_cold_start [of 60 _ GP2Y1014AU0F 2 0 "f32_of_int 5"] by simp

text \<open>
  Raw mean 123 on a new GP2Y1014AU0F with reference 5 V: 0.6006 V, which is above the
  float baseline \<open>0.6\<close>, and a density of 0.117 that truncates to 0.
\<close>

theorem scenario_raw_mean_123:
  "\<exists>s'. getDustDensity 20 (new_GP2YDustSensor GP2Y1014AU0F 2 0 60 (f32_of_int 5))
           (steady_board 123)
         = Some (Inr (0, s',
             board_after (new_GP2YDustSensor GP2Y1014AU0F 2 0 60 (f32_of_int 5)) 20
               (steady_board 123)))"
proof -
  let ?s = "new_GP2YDustSensor GP2Y1014AU0F 2 0 60 (f32_of_int 5)"
  have "case getDustDensity_rest 20 2460 ?s of Inl e \<Rightarrow> False | Inr (d, s') \<Rightarrow> d = 0"
    by code_simp
  then obtain s' where "getDustDensity_rest 20 2460 ?s = Inr (0, s')"
    by (cases "getDustDensity_rest 20 2460 ?s") auto
  then show ?thesis by (simp add: getDustDensity_steady_20)
qed

text \<open>
  The pushes 10 and 20 into a new window of capacity 60: the two values contribute, the
  58 empty slots do not, and the average handed to \<^verbatim>\<open>round\<close> is 15.
\<close>

theorem scenario_window_10_20:
  "\<forall>r. \<exists>s'. pushAll [10, 20] (new_GP2YDustSensor GP2Y1014AU0F 2 0 60 (f32_of_int 5)) = Inr s'
          \<and> contributions (runningAverageBuffer s') = [10, 20]
          \<and> getRunningAverage r s'
              = (case r (Finite False 15) of Inl e \<Rightarrow> Inl e | Inr a \<Rightarrow> Inr (a, s'))"
proof
  fix r
  let ?s = "new_GP2YDustSensor GP2Y1014AU0F 2 0 60 (f32_of_int 5)"
  let ?s' = "?s\<lparr>runningAverageBuffer := 10 # 20 # replicate 58 (- 1),
               nextRunningAverageCounter := 2\<rparr>"
  have b: "runningAverageBuffer ?s = replicate 60 (- 1)"
    by (simp add: new_GP2YDustSensor_def Let_def)
  have r60: "replicate 60 (- 1 :: 16 word) = - 1 # - 1 # replicate 58 (- 1)"
    by (simp add: numeral_eq_Suc)
  have c: "runningAverageCount ?s = 60" "nextRunningAverageCounter ?s = 0"
    by (simp_all add: new_GP2YDustSensor_def Let_def)
  have p: "pushAll [10, 20] ?s = Inr ?s'"
    by (simp add: updateRunningAverage_def Let_def b c r60)
  have ok: "window_ok ?s'" by (simp add: window_ok_def c)
  have c0: "runningAverageCount ?s' \<noteq> 0" by (simp add: c)
  have xs': "contributions (10 # 20 # replicate 58 (- 1)) = [10, 20]"
    by (simp add: contributions_def)
  then have xs: "contributions (runningAverageBuffer ?s') = [10, 20]"
    by simp
  have "f32_div (foldl f32_add (f32_of_int 0) (map f32_of_int [10, 20]))
          (f32_of_int (int (length [10, 20 :: int]))) = Finite False 15"
    by code_simp
  then have f: "f32_div (float_sum (10 # 20 # replicate 58 (- 1)))
                  (f32_of_int (int (length [10, 20 :: int]))) = Finite False 15"
    by (simp only: float_sum_def xs')
  show "\<exists>s'. pushAll [10, 20] ?s = Inr s'
          \<and> contributions (runningAverageBuffer s') = [10, 20]
          \<and> getRunningAverage r s'
              = (case r (Finite False 15) of Inl e \<Rightarrow> Inl e | Inr a \<Rightarrow> Inr (a, s'))"
    using p xs f by (intro exI [of _ ?s']) (simp add: getRunningAverage_eq [OF ok c0])
qed

end
